theory Spec2Isabelle
  imports Complex_Main "HOL-Library.Word"
begin

section \<open>Voice session handler of \<^verbatim>\<open>fastapi_app.py\<close>\<close>

text \<open>
  The development embeds the connection handler \<^verbatim>\<open>websocket_endpoint\<close>, its helpers
  \<^verbatim>\<open>transcribe_audio_stream\<close>, \<^verbatim>\<open>synthesize_speech_stream\<close>,
  \<^verbatim>\<open>get_ai_response_with_redis\<close> and the observer handler
  \<^verbatim>\<open>led_websocket_endpoint\<close>. Everything the handler does besides updating
  \<^verbatim>\<open>client_state\<close> is recorded, in program order, in a list of effects. The
  collaborators outside the file (JSON decoding, the speech client, the language model, the
  transport) are fields of an environment record.
\<close>

subsection \<open>Data\<close>

type_synonym byte = "8 word"
type_synonym bytes = "byte list"

text \<open>A decoded JSON value, as \<^verbatim>\<open>json.loads\<close> returns it. An object keeps its
  members in textual order; a later duplicate key wins, as in a Python dict.\<close>

datatype json =
    JNull
  | JBool bool
  | JNum int
  | JStr string
  | JArr "json list"
  | JObj "(string \<times> json) list"

text \<open>The exceptions that can leave the loop body: the two of the JSON handling, and
  \<open>ConnectionError\<close> for an exception raised inside a call of a collaborator (the
  speech client, the dialogue chain).\<close>

datatype py_error = JSONDecodeError | AttributeError | ConnectionError

text \<open>The frame returned by \<^verbatim>\<open>websocket.receive()\<close>: a dict holding either the key
  \<^verbatim>\<open>"text"\<close> or the key \<^verbatim>\<open>"bytes"\<close>.\<close>

datatype ws_message = Text string | Bytes bytes

text \<open>The response dict of \<^verbatim>\<open>speech_client.asr\<close>: only the two keys the code reads.
  \<open>SttNone\<close> is a falsy response (\<^verbatim>\<open>None\<close> or an empty dict).\<close>

datatype stt_result = SttNone | SttDict (err_no: "int option") (result: "string list option")

text \<open>\<^verbatim>\<open>speech_client.synthesis\<close> returns the audio bytes, or a dict describing the error.\<close>

datatype tts_result = TtsAudio bytes | TtsErrorDict

datatype chat_message = HumanMessage string | AIMessage string

text \<open>The lines the handlers print, one constructor per \<^verbatim>\<open>print\<close> statement.\<close>

datatype log_line =
    LogWakeWord
  | LogRecordingStarted
  | LogRecordingEnded
  | LogEmptyBuffer
  | LogAudioSize nat
  | LogStartPipeline
  | LogSttError stt_result
  | LogAsrFailed
  | LogUserSaid string
  | LogAiReply string
  | LogTtsError
  | LogTtsFailed
  | LogStartStreaming nat
  | LogSendFailed
  | LogTurnDone
  | LogRecordingCancelled
  | LogLedForwarded string
  | LogLedForwardFailed
  | LogUnknownError py_error
  | LogForcedClose
  | LogLedConnected
  | LogLedMessage string
  | LogLedDisconnected
  | LogLedError

text \<open>Observable actions. A send carries the flag \<open>True\<close> when it returned and \<open>False\<close>
  when it raised. \<open>Sleep\<close> is \<^verbatim>\<open>asyncio.sleep\<close>, in milliseconds.\<close>

datatype effect =
    Print log_line
  | CallAsr bytes
  | CallChain string string
  | CallTts string
  | Sleep nat
  | SendBytes bytes bool
  | SendText string bool
  | LedSendText nat string bool
  | WsClose

text \<open>\<^verbatim>\<open>client_state\<close>, the dict created for each connection.\<close>

record client_state =
  is_recording :: bool
  audio_buffer :: bytes

text \<open>The collaborators. A call of the recogniser, of the language model or of the
  synthesiser either returns (\<open>Inr\<close>) or raises (\<open>Inl\<close>); the code guards none of
  these calls. \<open>send_ok k\<close> tells whether the \<open>k\<close>-th send on the session's socket
  returns; \<open>led_send_ok k\<close> the same for sends to the LED controller.\<close>

record env =
  json_loads :: "string \<Rightarrow> json option"
  asr :: "bytes \<Rightarrow> py_error + stt_result"
  llm :: "chat_message list \<Rightarrow> string \<Rightarrow> py_error + string"
  synthesis :: "string \<Rightarrow> py_error + tts_result"
  send_ok :: "nat \<Rightarrow> bool"
  led_send_ok :: "nat \<Rightarrow> bool"

text \<open>State outside the connection: the module-level \<^verbatim>\<open>led_controller_connection\<close>
  (a connection is named by a number), the Redis store keyed by session id, and the number
  of sends attempted so far on each of the two sockets.\<close>

record world =
  led_controller_connection :: "nat option"
  redis :: "string \<Rightarrow> chat_message list"
  sends :: nat
  led_sends :: nat

subsection \<open>Helpers\<close>

text \<open>\<^verbatim>\<open>data.get(key)\<close>: defined on a dict only, \<^verbatim>\<open>None\<close> for a missing key.\<close>

definition dict_get :: "json \<Rightarrow> string \<Rightarrow> py_error + json" where
  "dict_get data key =
     (case data of
        JObj kvs \<Rightarrow> Inr (case map_of (rev kvs) key of None \<Rightarrow> JNull | Some v \<Rightarrow> v)
      | _ \<Rightarrow> Inl AttributeError)"

text \<open>The test of \<^verbatim>\<open>transcribe_audio_stream\<close>: the response is truthy, \<^verbatim>\<open>err_no\<close>
  is 0 and \<^verbatim>\<open>result\<close> is a non-empty list, whose first element is the text.\<close>

fun stt_first_result :: "stt_result \<Rightarrow> string option" where
  "stt_first_result (SttDict (Some e) (Some (r # rs))) = (if e = 0 then Some r else None)"
| "stt_first_result _ = None"

text \<open>An exception of \<^verbatim>\<open>speech_client.asr\<close> passes through the function uncaught.\<close>

definition transcribe_audio_stream ::
    "env \<Rightarrow> bytes \<Rightarrow> effect list \<times> (py_error + string)" where
  "transcribe_audio_stream env audio_bytes =
     (case asr env audio_bytes of
        Inl e \<Rightarrow> ([CallAsr audio_bytes], Inl e)
      | Inr stt_result \<Rightarrow>
          (case stt_first_result stt_result of
             Some text \<Rightarrow> ([CallAsr audio_bytes], Inr text)
           | None \<Rightarrow> ([CallAsr audio_bytes, Print (LogSttError stt_result)], Inr [])))"

text \<open>So does an exception of \<^verbatim>\<open>speech_client.synthesis\<close>.\<close>

definition synthesize_speech_stream ::
    "env \<Rightarrow> string \<Rightarrow> effect list \<times> (py_error + bytes)" where
  "synthesize_speech_stream env text =
     (case synthesis env text of
        Inl e \<Rightarrow> ([CallTts text], Inl e)
      | Inr (TtsAudio audio) \<Rightarrow> ([CallTts text], Inr audio)
      | Inr TtsErrorDict \<Rightarrow> ([CallTts text, Print LogTtsError], Inr []))"

text \<open>
  Modelled from the spec: the body of \<^verbatim>\<open>LLMChain.invoke\<close> with a
  \<^verbatim>\<open>ConversationBufferMemory\<close> over \<^verbatim>\<open>RedisChatMessageHistory\<close> is library code, not
  in the repository. It loads the history stored under the session id, asks the model for
  a reply and appends the human turn and the assistant turn together (the source's comment
  at the call: load the history, run the model, store the new question and answer pair).
  When the chain raises, nothing is written (the spec: a dialogue failure makes no partial
  memory write) and the exception passes through the function uncaught.
\<close>

definition get_ai_response_with_redis ::
    "env \<Rightarrow> world \<Rightarrow> string \<Rightarrow> string \<Rightarrow> world \<times> (py_error + string)" where
  "get_ai_response_with_redis env w user_input user_id =
     (let history = redis w user_id in
      case llm env history user_input of
        Inl e \<Rightarrow> (w, Inl e)
      | Inr response \<Rightarrow>
          (w\<lparr>redis := (redis w)(user_id :=
               history @ [HumanMessage user_input, AIMessage response])\<rparr>,
           Inr response))"

subsection \<open>Streaming the reply\<close>

definition CHUNK_SIZE :: nat where
  "CHUNK_SIZE = 1024"

definition BURST_SIZE :: nat where
  "BURST_SIZE = 8"

definition response_finished :: string where
  \<open>response_finished = ''{"event": "response_finished"}''\<close>

text \<open>\<^verbatim>\<open>range(i, stop, step)\<close> for a positive step (Python raises on step 0, which the
  constant chunk size excludes; the model gives the empty list there).\<close>

function py_range :: "nat \<Rightarrow> nat \<Rightarrow> nat \<Rightarrow> nat list" where
  "py_range i stop step = (if 0 < step \<and> i < stop then i # py_range (i + step) stop step else [])"
  by pat_completeness auto
termination
  by (relation "measure (\<lambda>(i, stop, step). stop - i)") auto

declare py_range.simps [simp del]

text \<open>The \<^verbatim>\<open>for\<close> loop over the offsets. \<open>n\<close> counts the sends made on the socket so
  far. A send that raises ends the loop (\<^verbatim>\<open>break\<close>).\<close>

fun send_chunks ::
    "env \<Rightarrow> nat \<Rightarrow> nat \<Rightarrow> bytes \<Rightarrow> nat list \<Rightarrow> nat \<Rightarrow> nat \<Rightarrow> effect list \<times> nat" where
  "send_chunks env csize bsize audio [] burst_count n = ([], n)"
| "send_chunks env csize bsize audio (i # offs) burst_count n =
     (let chunk = take csize (drop i audio) in
      if send_ok env n then
        (if bsize \<le> burst_count + 1 then
           (let (tr, n') = send_chunks env csize bsize audio offs 0 (n + 1)
            in (SendBytes chunk True # Sleep 1 # tr, n'))
         else
           (let (tr, n') = send_chunks env csize bsize audio offs (burst_count + 1) (n + 1)
            in (SendBytes chunk True # tr, n')))
      else ([SendBytes chunk False, Print LogSendFailed], n + 1))"

text \<open>The loop, then the end marker, whose failure is swallowed.\<close>

definition stream_reply :: "env \<Rightarrow> nat \<Rightarrow> nat \<Rightarrow> bytes \<Rightarrow> nat \<Rightarrow> effect list \<times> nat" where
  "stream_reply env csize bsize audio n =
     (let (tr, n') = send_chunks env csize bsize audio (py_range 0 (length audio) csize) 0 n
      in (Print (LogStartStreaming (length audio)) # tr
            @ [SendText response_finished (send_ok env n'), Print LogTurnDone],
          n' + 1))"

subsection \<open>The primary connection\<close>

text \<open>The branch of the event \<^verbatim>\<open>recording_ended\<close>. Every \<^verbatim>\<open>continue\<close> is a return
  of the state reached so far (\<open>Inr\<close>). The three awaited calls are not guarded: an
  exception raised in one of them leaves the branch and the loop (\<open>Inl\<close>), with the
  effects and the world reached at that point.\<close>

definition on_recording_ended ::
    "env \<Rightarrow> string \<Rightarrow> world \<Rightarrow> client_state
       \<Rightarrow> effect list \<times> world \<times> (py_error + client_state)" where
  "on_recording_ended env client_id w st =
     (let st1 = st\<lparr>is_recording := False\<rparr> in
      if audio_buffer st1 = [] then
        ([Print LogRecordingEnded, Print LogEmptyBuffer], w, Inr st1)
      else
        (let pre = [Print LogRecordingEnded, Print (LogAudioSize (length (audio_buffer st1))),
                    Print LogStartPipeline];
             (tr_asr, asr_outcome) = transcribe_audio_stream env (audio_buffer st1) in
         case asr_outcome of
           Inl e \<Rightarrow> (pre @ tr_asr, w, Inl e)
         | Inr user_text \<Rightarrow>
             if user_text = [] then
               (pre @ tr_asr @ [Print LogAsrFailed], w, Inr st1)
             else
               (let (w2, chain_outcome) = get_ai_response_with_redis env w user_text client_id in
                case chain_outcome of
                  Inl e \<Rightarrow>
                    (pre @ tr_asr @ [Print (LogUserSaid user_text), CallChain user_text client_id],
                     w2, Inl e)
                | Inr ai_response_text \<Rightarrow>
                    (let tr_llm = [Print (LogUserSaid user_text), CallChain user_text client_id,
                                   Print (LogAiReply ai_response_text)];
                         (tr_tts, tts_outcome) = synthesize_speech_stream env ai_response_text in
                     case tts_outcome of
                       Inl e \<Rightarrow> (pre @ tr_asr @ tr_llm @ tr_tts, w2, Inl e)
                     | Inr response_audio_bytes \<Rightarrow>
                         if response_audio_bytes = [] then
                           (pre @ tr_asr @ tr_llm @ tr_tts @ [Print LogTtsFailed], w2, Inr st1)
                         else
                           (let (tr_send, n') =
                                  stream_reply env CHUNK_SIZE BURST_SIZE response_audio_bytes
                                    (sends w2)
                            in (pre @ tr_asr @ tr_llm @ tr_tts @ [Sleep 100] @ tr_send,
                                w2\<lparr>sends := n'\<rparr>, Inr st1))))))"

text \<open>The forwarding of the literals \<^verbatim>\<open>"1"\<close> and \<^verbatim>\<open>"0"\<close> to the LED controller.\<close>

definition forward_led :: "env \<Rightarrow> world \<Rightarrow> string \<Rightarrow> effect list \<times> world" where
  "forward_led env w text =
     (case led_controller_connection w of
        None \<Rightarrow> ([], w)
      | Some led \<Rightarrow>
          if led_send_ok env (led_sends w) then
            ([LedSendText led text True, Print (LogLedForwarded text)],
             w\<lparr>led_sends := led_sends w + 1\<rparr>)
          else
            ([LedSendText led text False, Print LogLedForwardFailed],
             w\<lparr>led_controller_connection := None, led_sends := led_sends w + 1\<rparr>))"

text \<open>One iteration of the \<^verbatim>\<open>while True\<close> loop on a received frame. \<open>Inl\<close> is an
  exception leaving the loop body.\<close>

definition handle_message ::
    "env \<Rightarrow> string \<Rightarrow> world \<Rightarrow> client_state \<Rightarrow> ws_message
       \<Rightarrow> effect list \<times> world \<times> (py_error + client_state)" where
  "handle_message env client_id w st message =
     (case message of
        Text text \<Rightarrow>
          if text = ''1'' \<or> text = ''0'' then
            (let (tr, w') = forward_led env w text in (tr, w', Inr st))
          else
            (case json_loads env text of
               None \<Rightarrow> ([], w, Inl JSONDecodeError)
             | Some data \<Rightarrow>
                 (case dict_get data ''event'' of
                    Inl e \<Rightarrow> ([], w, Inl e)
                  | Inr event \<Rightarrow>
                      if event = JStr ''wake_word_detected'' then
                        ([Print LogWakeWord], w, Inr st)
                      else if event = JStr ''recording_started'' then
                        ([Print LogRecordingStarted], w,
                         Inr (st\<lparr>is_recording := True, audio_buffer := []\<rparr>))
                      else if event = JStr ''recording_ended'' then
                        on_recording_ended env client_id w st
                      else if event = JStr ''recording_cancelled'' then
                        ([Print LogRecordingCancelled], w,
                         Inr (st\<lparr>is_recording := False, audio_buffer := []\<rparr>))
                      else ([], w, Inr st)))
      | Bytes audio_chunk \<Rightarrow>
          if is_recording st then
            ([], w, Inr (st\<lparr>audio_buffer := audio_buffer st @ audio_chunk\<rparr>))
          else ([], w, Inr st))"

text \<open>The loop over the frames received so far. An exception is caught by the handler
  around the loop, which prints it; the \<^verbatim>\<open>finally\<close> clause then closes the connection,
  still open at that point.\<close>

fun websocket_loop ::
    "env \<Rightarrow> string \<Rightarrow> world \<Rightarrow> client_state \<Rightarrow> ws_message list
       \<Rightarrow> effect list \<times> world \<times> (py_error + client_state)" where
  "websocket_loop env client_id w st [] = ([], w, Inr st)"
| "websocket_loop env client_id w st (m # ms) =
     (case handle_message env client_id w st m of
        (tr, w', Inl e) \<Rightarrow>
          (tr @ [Print (LogUnknownError e), WsClose, Print LogForcedClose], w', Inl e)
      | (tr, w', Inr st') \<Rightarrow>
          (let (tr2, w'', r) = websocket_loop env client_id w' st' ms
           in (tr @ tr2, w'', r)))"

definition websocket_endpoint ::
    "env \<Rightarrow> string \<Rightarrow> world \<Rightarrow> ws_message list
       \<Rightarrow> effect list \<times> world \<times> (py_error + client_state)" where
  "websocket_endpoint env client_id w messages =
     websocket_loop env client_id w \<lparr>is_recording = False, audio_buffer = []\<rparr> messages"

subsection \<open>The LED controller connection\<close>

text \<open>\<^verbatim>\<open>led_websocket_endpoint\<close> in three phases, so that the handlers of two
  connections can interleave: the registration after \<^verbatim>\<open>accept\<close>, one received text,
  and the exit through \<^verbatim>\<open>finally\<close> (after a disconnect, or after another exception).\<close>

datatype led_event =
    LedAccept nat
  | LedReceive nat string
  | LedDisconnect nat
  | LedException nat

fun led_websocket_endpoint :: "world \<Rightarrow> led_event \<Rightarrow> effect list \<times> world" where
  "led_websocket_endpoint w (LedAccept ws) =
     ([Print LogLedConnected], w\<lparr>led_controller_connection := Some ws\<rparr>)"
| "led_websocket_endpoint w (LedReceive ws data) = ([Print (LogLedMessage data)], w)"
| "led_websocket_endpoint w (LedDisconnect ws) =
     ([Print LogLedDisconnected], w\<lparr>led_controller_connection := None\<rparr>)"
| "led_websocket_endpoint w (LedException ws) =
     ([Print LogLedError], w\<lparr>led_controller_connection := None\<rparr>)"

fun led_run :: "world \<Rightarrow> led_event list \<Rightarrow> effect list \<times> world" where
  "led_run w [] = ([], w)"
| "led_run w (e # es) =
     (let (tr, w') = led_websocket_endpoint w e;
          (tr2, w'') = led_run w' es
      in (tr @ tr2, w''))"

subsection \<open>Observations on a list of effects\<close>

text \<open>The calls of the pipeline: transcription, dialogue, synthesis.\<close>

fun is_pipeline_call :: "effect \<Rightarrow> bool" where
  "is_pipeline_call (CallAsr _) = True"
| "is_pipeline_call (CallChain _ _) = True"
| "is_pipeline_call (CallTts _) = True"
| "is_pipeline_call _ = False"

text \<open>The calls of the dialogue chain, which load and append the conversation memory.\<close>

fun is_chain_call :: "effect \<Rightarrow> bool" where
  "is_chain_call (CallChain _ _) = True"
| "is_chain_call _ = False"

text \<open>The payloads of the binary sends that returned, in order.\<close>

fun sent_chunks :: "effect list \<Rightarrow> bytes list" where
  "sent_chunks [] = []"
| "sent_chunks (SendBytes chunk True # tr) = chunk # sent_chunks tr"
| "sent_chunks (_ # tr) = sent_chunks tr"

text \<open>Every send on the session's socket, returned or not.\<close>

fun is_send :: "effect \<Rightarrow> bool" where
  "is_send (SendBytes _ _) = True"
| "is_send (SendText _ _) = True"
| "is_send _ = False"

subsection \<open>Sample inputs\<close>

definition wake_word_detected_text :: string where
  \<open>wake_word_detected_text = ''{"event": "wake_word_detected"}''\<close>

definition recording_started_text :: string where
  \<open>recording_started_text = ''{"event": "recording_started"}''\<close>

definition recording_ended_text :: string where
  \<open>recording_ended_text = ''{"event": "recording_ended"}''\<close>

definition recording_cancelled_text :: string where
  \<open>recording_cancelled_text = ''{"event": "recording_cancelled"}''\<close>

definition unknown_event_text :: string where
  \<open>unknown_event_text = ''{"event": "volume_up"}''\<close>

definition json_array_text :: string where
  \<open>json_array_text = ''[1, 2]''\<close>

definition malformed_text :: string where
  \<open>malformed_text = ''{"event": ''\<close>

text \<open>The value of \<^verbatim>\<open>json.loads\<close> at the sample texts above; \<open>None\<close> (the decoder
  raises) at \<open>malformed_text\<close>. No other text is used with it.\<close>

definition sample_json_loads :: "string \<Rightarrow> json option" where
  "sample_json_loads =
     map_of
       [(wake_word_detected_text, JObj [(''event'', JStr ''wake_word_detected'')]),
        (recording_started_text, JObj [(''event'', JStr ''recording_started'')]),
        (recording_ended_text, JObj [(''event'', JStr ''recording_ended'')]),
        (recording_cancelled_text, JObj [(''event'', JStr ''recording_cancelled'')]),
        (unknown_event_text, JObj [(''event'', JStr ''volume_up'')]),
        (json_array_text, JArr [JNum 1, JNum 2])]"

text \<open>An environment in which every collaborator succeeds: the recogniser hears
  \<open>''hello''\<close>, the model answers \<open>''hi''\<close>, the synthesiser returns 2500 bytes.\<close>

definition sample_env :: env where
  "sample_env =
     \<lparr>json_loads = sample_json_loads,
      asr = (\<lambda>audio. Inr (SttDict (Some 0) (Some [''hello'']))),
      llm = (\<lambda>history question. Inr ''hi''),
      synthesis = (\<lambda>text. Inr (TtsAudio (replicate 2500 0))),
      send_ok = (\<lambda>k. True),
      led_send_ok = (\<lambda>k. True)\<rparr>"

definition sample_world :: world where
  "sample_world =
     \<lparr>led_controller_connection = None, redis = (\<lambda>session_id. []), sends = 0, led_sends = 0\<rparr>"

text \<open>An environment whose LED controller socket is broken, and a world with controller 7
  registered.\<close>

definition led_down_env :: env where
  "led_down_env = sample_env\<lparr>led_send_ok := (\<lambda>k. False)\<rparr>"

definition observed_world :: world where
  "observed_world = sample_world\<lparr>led_controller_connection := Some 7\<rparr>"

text \<open>An environment whose recogniser answers with an error (no result), and one whose
  synthesiser answers with an error dict.\<close>

definition asr_down_env :: env where
  "asr_down_env = sample_env\<lparr>asr := (\<lambda>audio. Inr (SttDict (Some 3301) None))\<rparr>"

definition tts_down_env :: env where
  "tts_down_env = sample_env\<lparr>synthesis := (\<lambda>text. Inr TtsErrorDict)\<rparr>"

text \<open>An environment whose recogniser raises, and one whose synthesiser raises.\<close>

definition asr_raises_env :: env where
  "asr_raises_env = sample_env\<lparr>asr := (\<lambda>audio. Inl ConnectionError)\<rparr>"

definition tts_raises_env :: env where
  "tts_raises_env = sample_env\<lparr>synthesis := (\<lambda>text. Inl ConnectionError)\<rparr>"

text \<open>An environment in which the second send on the session's socket raises and every
  other send returns.\<close>

definition flaky_env :: env where
  "flaky_env = sample_env\<lparr>send_ok := (\<lambda>k. k \<noteq> 1)\<rparr>"

section \<open>Auxiliary facts\<close>

subsection \<open>Offsets and chunks\<close>

lemma step_arith:
  assumes "0 < step" "i < stop"
  shows "(stop - i + step - 1) div step = Suc ((stop - (i + step) + step - 1) div step)"
proof -
  have nz: "step \<noteq> 0" using assms by simp
  show ?thesis
  proof (cases "step \<le> stop - i")
    case True
    define a where "a = stop - (i + step) + step - 1"
    have "stop - i + step - 1 = a + step" using assms True by (simp add: a_def)
    then have "(stop - i + step - 1) div step = a div step + 1"
      using div_add_self2[OF nz, of a] by (simp only:)
    then show ?thesis by (simp only: a_def Suc_eq_plus1)
  next
    case False
    define a where "a = stop - i - 1"
    have "stop - i + step - 1 = a + step" using assms by (simp add: a_def)
    then have "(stop - i + step - 1) div step = a div step + 1"
      using div_add_self2[OF nz, of a] by (simp only:)
    moreover have "a < step" using False assms by (simp add: a_def)
    then have "a div step = 0" by (rule div_less)
    moreover have "stop - (i + step) + step - 1 < step" using False assms by linarith
    then have "(stop - (i + step) + step - 1) div step = 0" by (rule div_less)
    ultimately show ?thesis by (simp only: Suc_eq_plus1)
  qed
qed

lemma py_range_eq:
  "0 < step \<Longrightarrow> py_range i stop step = map (\<lambda>k. i + k * step) [0..<(stop - i + step - 1) div step]"
proof (induction i stop step rule: py_range.induct)
  case (1 i stop step)
  show ?case
  proof (cases "i < stop")
    case True
    have "py_range i stop step = i # py_range (i + step) stop step"
      using 1 True by (simp add: py_range.simps[of i])
    also have "py_range (i + step) stop step = map (\<lambda>k. i + step + k * step) [0..<(stop - (i + step) + step - 1) div step]"
      using 1 True by simp
    finally show ?thesis
      using step_arith[OF "1.prems" True] by (simp add: map_upt_Suc del: upt_Suc)
  next
    case False
    then show ?thesis using 1 by (simp add: py_range.simps[of i])
  qed
qed

lemma length_py_range:
  "0 < step \<Longrightarrow> length (py_range 0 stop step) = (stop + step - 1) div step"
  by (simp add: py_range_eq)

lemma concat_chunks:
  "0 < csize \<Longrightarrow> concat (map (\<lambda>i. take csize (drop i audio)) (py_range i (length audio) csize)) = drop i audio"
proof (induction i "length audio" csize rule: py_range.induct)
  case (1 i step)
  show ?case
  proof (cases "i < length audio")
    case True
    have "py_range i (length audio) step = i # py_range (i + step) (length audio) step"
      using 1 True by (simp add: py_range.simps[of i])
    moreover have "take step (drop i audio) @ drop (i + step) audio = drop i audio"
      by (metis add.commute append_take_drop_id drop_drop)
    ultimately show ?thesis using 1 True by simp
  next
    case False
    then show ?thesis using 1 by (simp add: py_range.simps[of i])
  qed
qed

lemma concat_chunks_upt:
  assumes "0 < csize"
  shows "concat (map (\<lambda>k. take csize (drop (k * csize) audio))
                     [0..<(length audio + csize - 1) div csize]) = audio"
  using concat_chunks[OF assms, of audio 0] by (simp add: py_range_eq[OF assms] comp_def)

lemma ceil_div_bounds:
  assumes "0 < (c::nat)"
  shows "l \<le> ((l + c - 1) div c) * c" and "((l + c - 1) div c) * c < l + c"
proof -
  let ?m = "(l + c - 1) div c"
  have 1: "l + c - 1 = ?m * c + (l + c - 1) mod c" by simp
  have 2: "(l + c - 1) mod c < c" using assms by simp
  show "l \<le> ?m * c" using 1 2 assms by linarith
  show "?m * c < l + c" using 1 2 assms by linarith
qed

lemma ceil_div:
  assumes "0 < (c::nat)"
  shows "(l + c - 1) div c = nat \<lceil>real l / real c\<rceil>"
proof -
  let ?m = "(l + c - 1) div c"
  have a: "real l \<le> real (?m * c)" using ceil_div_bounds(1)[OF assms, of l] by (simp only: of_nat_le_iff)
  have b: "real (?m * c) < real (l + c)" using ceil_div_bounds(2)[OF assms, of l] by (simp only: of_nat_less_iff)
  have c0: "0 < real c" using assms by simp
  have "real l / real c \<le> real ?m" using a c0 by (simp add: pos_divide_le_eq)
  moreover have "real ?m - 1 < real l / real c"
  proof -
    have "real ?m < (real l + real c) / real c" using b c0 by (simp add: pos_less_divide_eq)
    also have "\<dots> = real l / real c + 1" using c0 by (simp add: add_divide_distrib)
    finally show ?thesis by simp
  qed
  ultimately have "\<lceil>real l / real c\<rceil> = int ?m"
    by (intro ceiling_unique) simp_all
  then show ?thesis by simp
qed

lemma enumerate_map_upt:
  "enumerate 0 (map g [0..<m]) = map (\<lambda>k. (k, g k)) [0..<m]"
  by (rule nth_equalityI) (simp_all add: nth_enumerate_eq)

subsection \<open>The send loop\<close>

lemma send_chunks_all_ok:
  assumes "0 < bsize"
    and "\<forall>k < length offs. send_ok env (n + k)"
    and "burst_count = k0 mod bsize"
  shows "send_chunks env csize bsize audio offs burst_count n =
          (concat (map (\<lambda>(k, i). SendBytes (take csize (drop i audio)) True
                          # (if Suc k mod bsize = 0 then [Sleep 1] else []))
                       (enumerate k0 offs)),
           n + length offs)"
  using assms
proof (induction offs arbitrary: burst_count n k0)
  case Nil
  then show ?case by simp
next
  case (Cons i offs)
  have ok: "send_ok env n" using Cons.prems(2) by auto
  have rest: "\<forall>k < length offs. send_ok env (Suc n + k)" using Cons.prems(2) by auto
  have bc: "bsize \<le> burst_count + 1 \<longleftrightarrow> Suc k0 mod bsize = 0"
    using Cons.prems(1,3) mod_less_divisor[OF Cons.prems(1), of k0] by (auto simp: mod_Suc)
  show ?case
  proof (cases "Suc k0 mod bsize = 0")
    case True
    have "send_chunks env csize bsize audio offs 0 (Suc n) =
          (concat (map (\<lambda>(k, i). SendBytes (take csize (drop i audio)) True
                          # (if Suc k mod bsize = 0 then [Sleep 1] else []))
                       (enumerate (Suc k0) offs)), Suc n + length offs)"
      using Cons.IH[OF Cons.prems(1) rest, of 0 "Suc k0"] True by simp
    then show ?thesis using ok bc True by simp
  next
    case False
    have "burst_count + 1 = Suc k0 mod bsize" using False Cons.prems(1,3) by (auto simp: mod_Suc)
    then have "send_chunks env csize bsize audio offs (burst_count + 1) (Suc n) =
          (concat (map (\<lambda>(k, i). SendBytes (take csize (drop i audio)) True
                          # (if Suc k mod bsize = 0 then [Sleep 1] else []))
                       (enumerate (Suc k0) offs)), Suc n + length offs)"
      using Cons.IH[OF Cons.prems(1) rest, of "burst_count + 1" "Suc k0"] by simp
    then show ?thesis using ok bc False by simp
  qed
qed

lemma send_chunks_fails_at:
  assumes "0 < bsize"
    and "j < length offs"
    and "\<forall>k < j. send_ok env (n + k)"
    and "\<not> send_ok env (n + j)"
    and "burst_count = k0 mod bsize"
  shows "send_chunks env csize bsize audio offs burst_count n =
          (concat (map (\<lambda>(k, i). SendBytes (take csize (drop i audio)) True
                          # (if Suc k mod bsize = 0 then [Sleep 1] else []))
                       (enumerate k0 (take j offs)))
           @ [SendBytes (take csize (drop (offs ! j) audio)) False, Print LogSendFailed],
           n + j + 1)"
  using assms(2-5)
proof (induction offs arbitrary: j burst_count n k0)
  case Nil
  then show ?case by simp
next
  case (Cons i offs)
  show ?case
  proof (cases j)
    case 0
    then show ?thesis using Cons.prems by simp
  next
    case (Suc j')
    have ok: "send_ok env n" using Cons.prems(2) Suc by auto
    have len: "j' < length offs" using Cons.prems(1) Suc by simp
    have rest: "\<forall>k < j'. send_ok env (Suc n + k)" using Cons.prems(2) Suc by auto
    have bad: "\<not> send_ok env (Suc n + j')" using Cons.prems(3) Suc by simp
    have bc: "bsize \<le> burst_count + 1 \<longleftrightarrow> Suc k0 mod bsize = 0"
      using assms(1) Cons.prems(4) mod_less_divisor[OF assms(1), of k0] by (auto simp: mod_Suc)
    show ?thesis
    proof (cases "Suc k0 mod bsize = 0")
      case True
      then have z: "0 = Suc k0 mod bsize" by simp
      show ?thesis
        using Cons.IH[OF len rest bad z] ok bc True Suc by simp
    next
      case False
      have nb: "burst_count + 1 = Suc k0 mod bsize"
        using False assms(1) Cons.prems(4) by (auto simp: mod_Suc)
      show ?thesis
        using Cons.IH[OF len rest bad nb] ok bc False Suc by simp
    qed
  qed
qed

lemma sent_chunks_append: "sent_chunks (xs @ ys) = sent_chunks xs @ sent_chunks ys"
  by (induction xs rule: sent_chunks.induct) simp_all

lemma sent_chunks_bursts:
  "sent_chunks (concat (map (\<lambda>k. SendBytes (f k) True # (if p k then [Sleep 1] else [])) ks))
     = map f ks"
  by (induction ks) simp_all

lemma stream_reply_all_ok:
  assumes "0 < csize" and "0 < bsize"
    and "\<forall>k \<le> (length audio + csize - 1) div csize. send_ok env (n + k)"
  shows "stream_reply env csize bsize audio n =
           (Print (LogStartStreaming (length audio))
              # concat (map (\<lambda>k. SendBytes (take csize (drop (k * csize) audio)) True
                                  # (if Suc k mod bsize = 0 then [Sleep 1] else []))
                            [0..<(length audio + csize - 1) div csize])
              @ [SendText response_finished True, Print LogTurnDone],
            n + (length audio + csize - 1) div csize + 1)"
proof -
  let ?m = "(length audio + csize - 1) div csize"
  let ?offs = "py_range 0 (length audio) csize"
  have len: "length ?offs = ?m" by (rule length_py_range[OF assms(1)])
  have oks: "\<forall>k < length ?offs. send_ok env (n + k)" using assms(3) len by simp
  have z: "0 = 0 mod bsize" by simp
  have "send_chunks env csize bsize audio ?offs 0 n =
          (concat (map (\<lambda>(k, i). SendBytes (take csize (drop i audio)) True
                          # (if Suc k mod bsize = 0 then [Sleep 1] else []))
                       (enumerate 0 ?offs)), n + length ?offs)"
    by (rule send_chunks_all_ok[OF assms(2) oks z])
  also have "enumerate 0 ?offs = map (\<lambda>k. (k, k * csize)) [0..<?m]"
    using enumerate_map_upt[of "\<lambda>k. k * csize" ?m] by (simp add: py_range_eq[OF assms(1)])
  finally have sc: "send_chunks env csize bsize audio ?offs 0 n =
          (concat (map (\<lambda>k. SendBytes (take csize (drop (k * csize) audio)) True
                          # (if Suc k mod bsize = 0 then [Sleep 1] else [])) [0..<?m]), n + ?m)"
    by (simp add: len comp_def)
  have "send_ok env (n + ?m)" using assms(3) by simp
  then show ?thesis by (simp add: stream_reply_def sc)
qed

lemma stream_reply_fails_at:
  assumes "0 < csize" and "0 < bsize"
    and "j < (length audio + csize - 1) div csize"
    and "\<forall>k < j. send_ok env (n + k)"
    and "\<not> send_ok env (n + j)"
  shows "stream_reply env csize bsize audio n =
           (Print (LogStartStreaming (length audio))
              # concat (map (\<lambda>k. SendBytes (take csize (drop (k * csize) audio)) True
                                  # (if Suc k mod bsize = 0 then [Sleep 1] else []))
                            [0..<j])
              @ [SendBytes (take csize (drop (j * csize) audio)) False, Print LogSendFailed,
                 SendText response_finished (send_ok env (n + j + 1)), Print LogTurnDone],
            n + j + 2)"
proof -
  let ?m = "(length audio + csize - 1) div csize"
  let ?offs = "py_range 0 (length audio) csize"
  have offs: "?offs = map (\<lambda>k. k * csize) [0..<?m]" by (simp add: py_range_eq[OF assms(1)])
  have len: "j < length ?offs" using assms(3) by (simp add: offs)
  have z: "0 = 0 mod bsize" by simp
  have tk: "take j ?offs = map (\<lambda>k. k * csize) [0..<j]"
    using assms(3) by (simp add: offs take_map)
  have nth: "?offs ! j = j * csize" using assms(3) by (simp add: offs)
  have en: "enumerate 0 (take j ?offs) = map (\<lambda>k. (k, k * csize)) [0..<j]"
    unfolding tk by (rule enumerate_map_upt)
  have "send_chunks env csize bsize audio ?offs 0 n =
          (concat (map (\<lambda>k. SendBytes (take csize (drop (k * csize) audio)) True
                          # (if Suc k mod bsize = 0 then [Sleep 1] else [])) [0..<j])
           @ [SendBytes (take csize (drop (j * csize) audio)) False, Print LogSendFailed],
           n + j + 1)"
    using send_chunks_fails_at[OF assms(2) len assms(4,5) z, of csize audio]
    by (simp add: en nth comp_def)
  then show ?thesis by (simp add: stream_reply_def)
qed

lemma chain_free_tts: "filter is_chain_call (fst (synthesize_speech_stream env t)) = []"
  by (simp add: synthesize_speech_stream_def split: sum.splits tts_result.splits)

lemma chain_free_send_chunks:
  "filter is_chain_call (fst (send_chunks env csize bsize audio offs burst_count n)) = []"
  by (induction offs arbitrary: burst_count n) (simp_all add: Let_def case_prod_beta)

lemma chain_free_stream_reply:
  "filter is_chain_call (fst (stream_reply env csize bsize audio n)) = []"
  using chain_free_send_chunks[of env csize bsize audio "py_range 0 (length audio) csize" 0 n]
  by (simp add: stream_reply_def case_prod_beta)

subsection \<open>The handlers\<close>

lemma dict_get_event [simp]: "dict_get (JObj [(''event'', v)]) ''event'' = Inr v"
  by (simp add: dict_get_def)


lemma handle_bytes:
  "handle_message env cid w st (Bytes c) =
     ([], w, Inr (if is_recording st then st\<lparr>audio_buffer := audio_buffer st @ c\<rparr> else st))"
  by (simp add: handle_message_def)

lemma handle_recording_ended:
  assumes "text \<noteq> ''1''" and "text \<noteq> ''0''"
    and "json_loads env text = Some data"
    and "dict_get data ''event'' = Inr (JStr ''recording_ended'')"
  shows "handle_message env client_id w st (Text text) = on_recording_ended env client_id w st"
  using assms by (simp add: handle_message_def)

lemma on_recording_ended_state:
  "snd (snd (on_recording_ended env client_id w st)) = Inr st' \<Longrightarrow>
   st' = st\<lparr>is_recording := False\<rparr>"
  by (auto simp: on_recording_ended_def Let_def case_prod_beta split: sum.splits if_splits)


lemma on_recording_ended_asr_failed:
  assumes "audio_buffer st \<noteq> []"
    and "asr env (audio_buffer st) = Inr r"
    and "stt_first_result r = None \<or> stt_first_result r = Some []"
  shows "on_recording_ended env client_id w st =
           ([Print LogRecordingEnded, Print (LogAudioSize (length (audio_buffer st))),
             Print LogStartPipeline, CallAsr (audio_buffer st)]
            @ (if stt_first_result r = None then [Print (LogSttError r)] else [])
            @ [Print LogAsrFailed],
            w, Inr (st\<lparr>is_recording := False\<rparr>))"
  using assms
  by (auto simp: on_recording_ended_def transcribe_audio_stream_def Let_def)

lemma on_recording_ended_asr_raised:
  assumes "audio_buffer st \<noteq> []"
    and "asr env (audio_buffer st) = Inl e"
  shows "on_recording_ended env client_id w st =
           ([Print LogRecordingEnded, Print (LogAudioSize (length (audio_buffer st))),
             Print LogStartPipeline, CallAsr (audio_buffer st)],
            w, Inl e)"
  using assms
  by (simp add: on_recording_ended_def transcribe_audio_stream_def Let_def)

lemma on_recording_ended_chain_raised:
  assumes "audio_buffer st \<noteq> []"
    and "asr env (audio_buffer st) = Inr r"
    and "stt_first_result r = Some user_text"
    and "user_text \<noteq> []"
    and "llm env (redis w client_id) user_text = Inl e"
  shows "on_recording_ended env client_id w st =
           ([Print LogRecordingEnded, Print (LogAudioSize (length (audio_buffer st))),
             Print LogStartPipeline, CallAsr (audio_buffer st), Print (LogUserSaid user_text),
             CallChain user_text client_id],
            w, Inl e)"
  using assms
  by (simp add: on_recording_ended_def transcribe_audio_stream_def
      get_ai_response_with_redis_def Let_def)

lemma on_recording_ended_dialogue:
  assumes "audio_buffer st \<noteq> []"
    and "asr env (audio_buffer st) = Inr r"
    and "stt_first_result r = Some user_text"
    and "user_text \<noteq> []"
    and "llm env (redis w client_id) user_text = Inr reply"
  shows "on_recording_ended env client_id w st =
     (let w2 = w\<lparr>redis := (redis w)(client_id :=
                   redis w client_id @ [HumanMessage user_text, AIMessage reply])\<rparr>;
          pre = [Print LogRecordingEnded, Print (LogAudioSize (length (audio_buffer st))),
                 Print LogStartPipeline, CallAsr (audio_buffer st), Print (LogUserSaid user_text),
                 CallChain user_text client_id, Print (LogAiReply reply)];
          (tr_tts, tts_outcome) = synthesize_speech_stream env reply
      in case tts_outcome of
           Inl e \<Rightarrow> (pre @ tr_tts, w2, Inl e)
         | Inr audio \<Rightarrow>
             if audio = [] then
               (pre @ tr_tts @ [Print LogTtsFailed], w2, Inr (st\<lparr>is_recording := False\<rparr>))
             else
               (let (tr_send, n') = stream_reply env CHUNK_SIZE BURST_SIZE audio (sends w)
                in (pre @ tr_tts @ [Sleep 100] @ tr_send, w2\<lparr>sends := n'\<rparr>,
                    Inr (st\<lparr>is_recording := False\<rparr>))))"
  using assms
  by (simp add: on_recording_ended_def transcribe_audio_stream_def
      get_ai_response_with_redis_def Let_def split: prod.splits sum.splits)

lemma on_recording_ended_redis:
  "redis (fst (snd (on_recording_ended env client_id w st))) = redis w
   \<or> (\<exists>u reply. llm env (redis w client_id) u = Inr reply
         \<and> redis (fst (snd (on_recording_ended env client_id w st))) =
            (redis w)(client_id := redis w client_id @ [HumanMessage u, AIMessage reply]))"
  by (auto simp: on_recording_ended_def get_ai_response_with_redis_def Let_def case_prod_beta
      split: sum.splits)


lemma websocket_loop_append:
  "websocket_loop env client_id w st ms = (tr, w', Inr st') \<Longrightarrow>
   websocket_loop env client_id w st (ms @ ms') =
     (let (tr2, w'', r) = websocket_loop env client_id w' st' ms' in (tr @ tr2, w'', r))"
proof (induction ms arbitrary: w st tr)
  case Nil
  then show ?case by (simp split: prod.splits)
next
  case (Cons m ms)
  obtain tr1 w1 r1 where h: "handle_message env client_id w st m = (tr1, w1, r1)"
    by (cases "handle_message env client_id w st m") auto
  show ?case
  proof (cases r1)
    case (Inl e)
    then show ?thesis using Cons.prems h by simp
  next
    case (Inr st1)
    obtain tr2 w2 r2 where l: "websocket_loop env client_id w1 st1 ms = (tr2, w2, r2)"
      by (cases "websocket_loop env client_id w1 st1 ms") auto
    with Cons.prems h Inr have r2: "r2 = Inr st'" and w2: "w2 = w'" and tr: "tr = tr1 @ tr2"
      by auto
    show ?thesis
      using Cons.IH[OF l[unfolded r2 w2]] h Inr tr by (simp split: prod.splits)
  qed
qed

lemma forward_led_no_observer:
  "led_controller_connection w = None \<Longrightarrow> forward_led env w t = ([], w)"
  by (simp add: forward_led_def)

lemma literal_frames_no_observer:
  assumes "led_controller_connection w = None"
    and "\<forall>m \<in> set ms. m = Text ''1'' \<or> m = Text ''0''"
  shows "websocket_loop env client_id w st ms = ([], w, Inr st)"
  using assms(2)
proof (induction ms)
  case Nil
  then show ?case by simp
next
  case (Cons m ms)
  then have "m = Text ''1'' \<or> m = Text ''0''" by simp
  then have "handle_message env client_id w st m = ([], w, Inr st)"
    using assms(1) by (auto simp: handle_message_def forward_led_no_observer)
  then show ?case using Cons by simp
qed

lemma led_run_append:
  "led_run w (es @ es') =
     (let (tr, w') = led_run w es; (tr2, w'') = led_run w' es' in (tr @ tr2, w''))"
  by (induction es arbitrary: w) (simp_all split: prod.splits)

lemma led_run_snoc_world:
  "snd (led_run w (es @ [e])) = snd (led_websocket_endpoint (snd (led_run w es)) e)"
  by (simp add: led_run_append split: prod.splits)

subsection \<open>The sample inputs\<close>

lemmas sample_text_defs =
  wake_word_detected_text_def recording_started_text_def recording_ended_text_def
  recording_cancelled_text_def unknown_event_text_def json_array_text_def malformed_text_def

lemma sample_json_loads_values:
  "json_loads sample_env wake_word_detected_text = Some (JObj [(''event'', JStr ''wake_word_detected'')])"
  "json_loads sample_env recording_started_text = Some (JObj [(''event'', JStr ''recording_started'')])"
  "json_loads sample_env recording_ended_text = Some (JObj [(''event'', JStr ''recording_ended'')])"
  "json_loads sample_env recording_cancelled_text = Some (JObj [(''event'', JStr ''recording_cancelled'')])"
  "json_loads sample_env unknown_event_text = Some (JObj [(''event'', JStr ''volume_up'')])"
  "json_loads sample_env json_array_text = Some (JArr [JNum 1, JNum 2])"
  "json_loads sample_env malformed_text = None"
  by (simp_all add: sample_env_def sample_json_loads_def sample_text_defs)

lemma sample_text_not_literal:
  "wake_word_detected_text \<noteq> ''1''" "wake_word_detected_text \<noteq> ''0''"
  "recording_started_text \<noteq> ''1''" "recording_started_text \<noteq> ''0''"
  "recording_ended_text \<noteq> ''1''" "recording_ended_text \<noteq> ''0''"
  "recording_cancelled_text \<noteq> ''1''" "recording_cancelled_text \<noteq> ''0''"
  "unknown_event_text \<noteq> ''1''" "unknown_event_text \<noteq> ''0''"
  "json_array_text \<noteq> ''1''" "json_array_text \<noteq> ''0''"
  "malformed_text \<noteq> ''1''" "malformed_text \<noteq> ''0''"
  by (simp_all add: sample_text_defs)

lemma handle_sample_started:
  "handle_message sample_env cid w st (Text recording_started_text) =
     ([Print LogRecordingStarted], w, Inr (st\<lparr>is_recording := True, audio_buffer := []\<rparr>))"
  by (simp add: handle_message_def sample_json_loads_values sample_text_not_literal)

lemma handle_sample_cancelled:
  "handle_message sample_env cid w st (Text recording_cancelled_text) =
     ([Print LogRecordingCancelled], w, Inr (st\<lparr>is_recording := False, audio_buffer := []\<rparr>))"
  by (simp add: handle_message_def sample_json_loads_values sample_text_not_literal)



lemma flaky_turn:
  "handle_message flaky_env ''esp32'' sample_world \<lparr>is_recording = True, audio_buffer = [1, 2]\<rparr>
       (Text recording_ended_text) =
     ([Print LogRecordingEnded, Print (LogAudioSize 2), Print LogStartPipeline, CallAsr [1, 2],
       Print (LogUserSaid ''hello''), CallChain ''hello'' ''esp32'', Print (LogAiReply ''hi''),
       CallTts ''hi'', Sleep 100, Print (LogStartStreaming 2500),
       SendBytes (replicate 1024 0) True, SendBytes (replicate 1024 0) False, Print LogSendFailed,
       SendText response_finished True, Print LogTurnDone],
      sample_world\<lparr>redis := (redis sample_world)(''esp32'' := [HumanMessage ''hello'', AIMessage ''hi'']),
                     sends := 3\<rparr>,
      Inr \<lparr>is_recording = False, audio_buffer = [1, 2]\<rparr>)"
proof -
  have l: "json_loads flaky_env recording_ended_text
             = Some (JObj [(''event'', JStr ''recording_ended'')])"
    using sample_json_loads_values(3) by (simp add: flaky_env_def)
  have e: "dict_get (JObj [(''event'', JStr ''recording_ended'')]) ''event''
             = Inr (JStr ''recording_ended'')"
    by simp
  have b: "audio_buffer \<lparr>is_recording = True, audio_buffer = [1, 2::byte]\<rparr> \<noteq> []" by simp
  have a: "asr flaky_env (audio_buffer \<lparr>is_recording = True, audio_buffer = [1, 2]\<rparr>)
             = Inr (SttDict (Some 0) (Some [''hello'']))"
    by (simp add: flaky_env_def sample_env_def)
  have f: "stt_first_result (SttDict (Some 0) (Some [''hello''])) = Some ''hello''" by simp
  have n: "''hello'' \<noteq> []" by simp
  have q: "llm flaky_env (redis sample_world ''esp32'') ''hello'' = Inr ''hi''"
    by (simp add: flaky_env_def sample_env_def)
  have c: "0 < CHUNK_SIZE" and bs: "0 < BURST_SIZE" by (simp_all add: CHUNK_SIZE_def BURST_SIZE_def)
  have j: "1 < (length (replicate 2500 (0::byte)) + CHUNK_SIZE - 1) div CHUNK_SIZE"
    by (simp add: CHUNK_SIZE_def)
  have ok: "\<forall>k < 1. send_ok flaky_env (0 + k)" by (simp add: flaky_env_def)
  have bad: "\<not> send_ok flaky_env (0 + 1)" by (simp add: flaky_env_def)
  have s: "stream_reply flaky_env CHUNK_SIZE BURST_SIZE (replicate 2500 0) 0 =
             ([Print (LogStartStreaming 2500), SendBytes (replicate 1024 0) True,
               SendBytes (replicate 1024 0) False, Print LogSendFailed,
               SendText response_finished True, Print LogTurnDone], 3)"
    using stream_reply_fails_at[OF c bs j ok bad]
    by (simp add: CHUNK_SIZE_def BURST_SIZE_def flaky_env_def)
  have t: "synthesize_speech_stream flaky_env ''hi'' = ([CallTts ''hi''], Inr (replicate 2500 0))"
    by (simp add: synthesize_speech_stream_def flaky_env_def sample_env_def)
  have r: "redis sample_world ''esp32'' = []" "sends sample_world = 0"
    by (simp_all add: sample_world_def)
  show ?thesis
    by (simp add: handle_recording_ended[OF sample_text_not_literal(5,6) l e]
        on_recording_ended_dialogue[OF b a f n q] Let_def r t s)
qed

section \<open>The session state machine\<close>

text \<open>
  C1: when \<^verbatim>\<open>recording_ended\<close> arrives and the audio buffer is empty, the handler
  only prints the event and the warning, leaves the session not recording (idle) with the
  world untouched, and calls neither transcription, dialogue nor synthesis.
\<close>

theorem empty_recording_skips_pipeline:
  assumes "text \<noteq> ''1''" and "text \<noteq> ''0''"
    and "json_loads env text = Some data"
    and "dict_get data ''event'' = Inr (JStr ''recording_ended'')"
    and "audio_buffer st = []"
  shows "handle_message env client_id w st (Text text) =
           ([Print LogRecordingEnded, Print LogEmptyBuffer], w, Inr (st\<lparr>is_recording := False\<rparr>))
         \<and> filter is_pipeline_call (fst (handle_message env client_id w st (Text text))) = []"
  using assms by (simp add: handle_message_def on_recording_ended_def)

theorem empty_recording_skips_pipeline_witness:
  "handle_message sample_env ''esp32'' sample_world \<lparr>is_recording = True, audio_buffer = []\<rparr>
       (Text recording_ended_text) =
     ([Print LogRecordingEnded, Print LogEmptyBuffer], sample_world,
      Inr \<lparr>is_recording = False, audio_buffer = []\<rparr>)"
proof -
  note a = sample_text_not_literal(5) and b = sample_text_not_literal(6)
  have c: "dict_get (JObj [(''event'', JStr ''recording_ended'')]) ''event''
             = Inr (JStr ''recording_ended'')"
    by (simp add: dict_get_def)
  have d: "audio_buffer \<lparr>is_recording = True, audio_buffer = []\<rparr> = []" by simp
  show ?thesis
    using empty_recording_skips_pipeline[OF a b sample_json_loads_values(3) c d, of "''esp32''" sample_world]
    by simp
qed

text \<open>
  C2: after any sequence of frames that left the connection open, a binary frame is appended
  to the audio buffer exactly when \<^verbatim>\<open>is_recording\<close> holds, and changes nothing
  otherwise; a text frame never appends: it leaves the buffer as it is or empties it.
\<close>

theorem audio_appended_iff_recording:
  assumes "websocket_loop env client_id w st0 ms = (tr, w', Inr st)"
  shows "websocket_loop env client_id w st0 (ms @ [Bytes audio_chunk]) =
           (tr, w', Inr (if is_recording st
                         then st\<lparr>audio_buffer := audio_buffer st @ audio_chunk\<rparr> else st))
         \<and> (\<forall>text tr2 w2 st2.
               handle_message env client_id w' st (Text text) = (tr2, w2, Inr st2)
               \<longrightarrow> audio_buffer st2 = audio_buffer st \<or> audio_buffer st2 = [])"
proof
  show "websocket_loop env client_id w st0 (ms @ [Bytes audio_chunk]) =
           (tr, w', Inr (if is_recording st
                         then st\<lparr>audio_buffer := audio_buffer st @ audio_chunk\<rparr> else st))"
    using websocket_loop_append[OF assms, of "[Bytes audio_chunk]"]
    by (simp add: handle_message_def)
next
  show "\<forall>text tr2 w2 st2.
               handle_message env client_id w' st (Text text) = (tr2, w2, Inr st2)
               \<longrightarrow> audio_buffer st2 = audio_buffer st \<or> audio_buffer st2 = []"
  proof (intro allI impI)
    fix t tr2 w2 st2
    assume h: "handle_message env client_id w' st (Text t) = (tr2, w2, Inr st2)"
    have "snd (snd (on_recording_ended env client_id w' st)) = Inr st2 \<Longrightarrow>
          st2 = st\<lparr>is_recording := False\<rparr>"
      by (rule on_recording_ended_state)
    then show "audio_buffer st2 = audio_buffer st \<or> audio_buffer st2 = []"
      using h
      by (auto simp: handle_message_def split: if_splits option.splits sum.splits prod.splits)
  qed
qed

theorem audio_appended_iff_recording_witness:
  "websocket_loop sample_env ''esp32'' sample_world \<lparr>is_recording = False, audio_buffer = []\<rparr>
       [Bytes [9], Text recording_started_text, Bytes [1, 2], Bytes [3]] =
     ([Print LogRecordingStarted], sample_world, Inr \<lparr>is_recording = True, audio_buffer = [1, 2, 3]\<rparr>)
   \<and> (audio_buffer \<lparr>is_recording = False, audio_buffer = []\<rparr> = [1, 2]
        \<or> audio_buffer \<lparr>is_recording = False, audio_buffer = []\<rparr> = [])"
proof -
  let ?st = "\<lparr>is_recording = True, audio_buffer = [1, 2]\<rparr>"
  have run: "websocket_loop sample_env ''esp32'' sample_world \<lparr>is_recording = False, audio_buffer = []\<rparr>
       [Bytes [9], Text recording_started_text, Bytes [1, 2]] =
     ([Print LogRecordingStarted], sample_world, Inr ?st)"
    by (simp add: handle_bytes handle_sample_started)
  have cancel: "handle_message sample_env ''esp32'' sample_world ?st (Text recording_cancelled_text) =
     ([Print LogRecordingCancelled], sample_world, Inr \<lparr>is_recording = False, audio_buffer = []\<rparr>)"
    by (simp add: handle_sample_cancelled)
  note step = audio_appended_iff_recording[OF run, of "[3]"]
  from step have "websocket_loop sample_env ''esp32'' sample_world \<lparr>is_recording = False, audio_buffer = []\<rparr>
       ([Bytes [9], Text recording_started_text, Bytes [1, 2]] @ [Bytes [3]]) =
     ([Print LogRecordingStarted], sample_world, Inr \<lparr>is_recording = True, audio_buffer = [1, 2, 3]\<rparr>)"
    by simp
  moreover from step cancel have "audio_buffer \<lparr>is_recording = False, audio_buffer = []\<rparr> = audio_buffer ?st
        \<or> audio_buffer \<lparr>is_recording = False, audio_buffer = []\<rparr> = []"
    by blast
  ultimately show ?thesis by simp
qed

section \<open>The pipeline\<close>

text \<open>
  C3: handling \<^verbatim>\<open>recording_ended\<close> changes the history of the session by nothing or by
  one pair, never by a single entry, and leaves every other session's history alone. When
  the turn gets past transcription and the dialogue chain returns a reply (the turn is not
  aborted before the append), the chain is called exactly once, and the history afterwards
  is the history before followed by the human turn and the assistant turn: two entries more.
\<close>

theorem memory_append_is_one_pair:
  assumes "text \<noteq> ''1''" and "text \<noteq> ''0''"
    and "json_loads env text = Some data"
    and "dict_get data ''event'' = Inr (JStr ''recording_ended'')"
  shows "(audio_buffer st \<noteq> [] \<and> asr env (audio_buffer st) = Inr r
            \<and> stt_first_result r = Some user_text \<and> user_text \<noteq> []
            \<and> llm env (redis w client_id) user_text = Inr reply \<longrightarrow>
            redis (fst (snd (handle_message env client_id w st (Text text)))) client_id =
              redis w client_id @ [HumanMessage user_text, AIMessage reply]
            \<and> length (redis (fst (snd (handle_message env client_id w st (Text text)))) client_id) =
                length (redis w client_id) + 2
            \<and> length (filter is_chain_call (fst (handle_message env client_id w st (Text text)))) = 1)
       \<and> (length (redis (fst (snd (handle_message env client_id w st (Text text)))) client_id) =
              length (redis w client_id)
            \<or> length (redis (fst (snd (handle_message env client_id w st (Text text)))) client_id) =
              length (redis w client_id) + 2)
       \<and> (\<forall>session_id. session_id \<noteq> client_id \<longrightarrow>
              redis (fst (snd (handle_message env client_id w st (Text text)))) session_id =
                redis w session_id)"
proof -
  have h: "handle_message env client_id w st (Text text) = on_recording_ended env client_id w st"
    by (rule handle_recording_ended[OF assms])
  have 1: "audio_buffer st \<noteq> [] \<and> asr env (audio_buffer st) = Inr r
            \<and> stt_first_result r = Some user_text \<and> user_text \<noteq> []
            \<and> llm env (redis w client_id) user_text = Inr reply \<longrightarrow>
            redis (fst (snd (on_recording_ended env client_id w st))) client_id =
              redis w client_id @ [HumanMessage user_text, AIMessage reply]
            \<and> length (filter is_chain_call (fst (on_recording_ended env client_id w st))) = 1"
  proof
    assume a: "audio_buffer st \<noteq> [] \<and> asr env (audio_buffer st) = Inr r
            \<and> stt_first_result r = Some user_text \<and> user_text \<noteq> []
            \<and> llm env (redis w client_id) user_text = Inr reply"
    then have d: "audio_buffer st \<noteq> []" "asr env (audio_buffer st) = Inr r"
      "stt_first_result r = Some user_text" "user_text \<noteq> []"
      "llm env (redis w client_id) user_text = Inr reply" by simp_all
    show "redis (fst (snd (on_recording_ended env client_id w st))) client_id =
              redis w client_id @ [HumanMessage user_text, AIMessage reply]
            \<and> length (filter is_chain_call (fst (on_recording_ended env client_id w st))) = 1"
      using chain_free_tts[of env reply]
        chain_free_stream_reply[of env CHUNK_SIZE BURST_SIZE _ "sends w"]
      by (simp add: on_recording_ended_dialogue[OF d] Let_def case_prod_beta split: sum.splits)
  qed
  have 2: "length (redis (fst (snd (on_recording_ended env client_id w st))) client_id) =
              length (redis w client_id)
            \<or> length (redis (fst (snd (on_recording_ended env client_id w st))) client_id) =
              length (redis w client_id) + 2"
    using on_recording_ended_redis[of env client_id w st] by auto
  have 3: "\<forall>session_id. session_id \<noteq> client_id \<longrightarrow>
              redis (fst (snd (on_recording_ended env client_id w st))) session_id = redis w session_id"
    using on_recording_ended_redis[of env client_id w st] by auto
  from 1 2 3 show ?thesis unfolding h by simp
qed

theorem memory_append_is_one_pair_witness:
  "redis (fst (snd (handle_message sample_env ''esp32'' sample_world
            \<lparr>is_recording = True, audio_buffer = [1, 2]\<rparr> (Text recording_ended_text)))) ''esp32''
     = [HumanMessage ''hello'', AIMessage ''hi'']
   \<and> length (filter is_chain_call (fst (handle_message sample_env ''esp32'' sample_world
            \<lparr>is_recording = True, audio_buffer = [1, 2]\<rparr> (Text recording_ended_text)))) = 1"
proof -
  have e: "dict_get (JObj [(''event'', JStr ''recording_ended'')]) ''event''
             = Inr (JStr ''recording_ended'')"
    by simp
  have p: "audio_buffer \<lparr>is_recording = True, audio_buffer = [1, 2::byte]\<rparr> \<noteq> []
        \<and> asr sample_env (audio_buffer \<lparr>is_recording = True, audio_buffer = [1, 2]\<rparr>)
            = Inr (SttDict (Some 0) (Some [''hello'']))
        \<and> stt_first_result (SttDict (Some 0) (Some [''hello''])) = Some ''hello''
        \<and> ''hello'' \<noteq> []
        \<and> llm sample_env (redis sample_world ''esp32'') ''hello'' = Inr ''hi''"
    by (simp add: sample_env_def)
  have r: "redis sample_world ''esp32'' = []"
    by (simp add: sample_world_def)
  from memory_append_is_one_pair[OF sample_text_not_literal(5,6) sample_json_loads_values(3) e,
      where st = "\<lparr>is_recording = True, audio_buffer = [1, 2]\<rparr>"
        and r = "SttDict (Some 0) (Some [''hello''])" and user_text = "''hello''"
        and client_id = "''esp32''" and w = sample_world and reply = "''hi''"]
    p r
  show ?thesis by simp
qed

text \<open>
  A synthesis failure can abort more than audio delivery. With a synthesiser that raises,
  the turn is appended to the memory, the exception leaves the loop, the error is printed
  and the connection is closed; the frame after it is never handled.
\<close>

theorem synthesis_exception_closes_counterexample:
  "websocket_loop tts_raises_env ''esp32'' sample_world \<lparr>is_recording = True, audio_buffer = [1, 2]\<rparr>
       [Text recording_ended_text, Text recording_started_text] =
     ([Print LogRecordingEnded, Print (LogAudioSize 2), Print LogStartPipeline, CallAsr [1, 2],
       Print (LogUserSaid ''hello''), CallChain ''hello'' ''esp32'', Print (LogAiReply ''hi''),
       CallTts ''hi'', Print (LogUnknownError ConnectionError), WsClose, Print LogForcedClose],
      sample_world\<lparr>redis := (redis sample_world)(''esp32'' := [HumanMessage ''hello'', AIMessage ''hi''])\<rparr>,
      Inl ConnectionError)"
proof -
  have l: "json_loads tts_raises_env recording_ended_text
             = Some (JObj [(''event'', JStr ''recording_ended'')])"
    using sample_json_loads_values(3) by (simp add: tts_raises_env_def)
  have e: "dict_get (JObj [(''event'', JStr ''recording_ended'')]) ''event''
             = Inr (JStr ''recording_ended'')"
    by simp
  have b: "audio_buffer \<lparr>is_recording = True, audio_buffer = [1, 2::byte]\<rparr> \<noteq> []" by simp
  have a: "asr tts_raises_env (audio_buffer \<lparr>is_recording = True, audio_buffer = [1, 2]\<rparr>)
             = Inr (SttDict (Some 0) (Some [''hello'']))"
    by (simp add: tts_raises_env_def sample_env_def)
  have f: "stt_first_result (SttDict (Some 0) (Some [''hello''])) = Some ''hello''" by simp
  have n: "''hello'' \<noteq> []" by simp
  have q: "llm tts_raises_env (redis sample_world ''esp32'') ''hello'' = Inr ''hi''"
    by (simp add: tts_raises_env_def sample_env_def)
  have t: "synthesize_speech_stream tts_raises_env ''hi'' = ([CallTts ''hi''], Inl ConnectionError)"
    by (simp add: synthesize_speech_stream_def tts_raises_env_def)
  have r: "redis sample_world ''esp32'' = []" by (simp add: sample_world_def)
  show ?thesis
    by (simp add: handle_recording_ended[OF sample_text_not_literal(5,6) l e]
        on_recording_ended_dialogue[OF b a f n q] Let_def r t)
qed

text \<open>
  C4, as the code has it: once transcription gave a text and the dialogue chain returned,
  the chain call, which appends the turn to the conversation memory, comes before the
  synthesiser call in the trace, and the history holds the appended pair whatever the
  synthesiser does. When the synthesiser answers with an error or with no audio, the
  handler prints the failure and sends nothing; the world differs from the one before only
  by the appended pair, and the connection stays open. When the synthesiser raises, nothing
  is sent and the pair is kept as well, but the exception leaves the loop: the error is
  printed and the connection closed, whatever frames follow.
\<close>

theorem memory_append_precedes_synthesis:
  assumes "text \<noteq> ''1''" and "text \<noteq> ''0''"
    and "json_loads env text = Some data"
    and "dict_get data ''event'' = Inr (JStr ''recording_ended'')"
    and "audio_buffer st \<noteq> []"
    and "asr env (audio_buffer st) = Inr r"
    and "stt_first_result r = Some user_text"
    and "user_text \<noteq> []"
    and "llm env (redis w client_id) user_text = Inr reply"
  shows "(\<exists>tr2. fst (handle_message env client_id w st (Text text)) =
            [Print LogRecordingEnded, Print (LogAudioSize (length (audio_buffer st))),
             Print LogStartPipeline, CallAsr (audio_buffer st), Print (LogUserSaid user_text),
             CallChain user_text client_id, Print (LogAiReply reply), CallTts reply] @ tr2)
       \<and> redis (fst (snd (handle_message env client_id w st (Text text)))) client_id =
            redis w client_id @ [HumanMessage user_text, AIMessage reply]
       \<and> (synthesis env reply = Inr TtsErrorDict \<or> synthesis env reply = Inr (TtsAudio []) \<longrightarrow>
            handle_message env client_id w st (Text text) =
              ([Print LogRecordingEnded, Print (LogAudioSize (length (audio_buffer st))),
                Print LogStartPipeline, CallAsr (audio_buffer st), Print (LogUserSaid user_text),
                CallChain user_text client_id, Print (LogAiReply reply), CallTts reply]
               @ (if synthesis env reply = Inr TtsErrorDict then [Print LogTtsError] else [])
               @ [Print LogTtsFailed],
               w\<lparr>redis := (redis w)(client_id :=
                     redis w client_id @ [HumanMessage user_text, AIMessage reply])\<rparr>,
               Inr (st\<lparr>is_recording := False\<rparr>)))
       \<and> (synthesis env reply = Inl e \<longrightarrow>
            websocket_loop env client_id w st (Text text # ms) =
              ([Print LogRecordingEnded, Print (LogAudioSize (length (audio_buffer st))),
                Print LogStartPipeline, CallAsr (audio_buffer st), Print (LogUserSaid user_text),
                CallChain user_text client_id, Print (LogAiReply reply), CallTts reply,
                Print (LogUnknownError e), WsClose, Print LogForcedClose],
               w\<lparr>redis := (redis w)(client_id :=
                     redis w client_id @ [HumanMessage user_text, AIMessage reply])\<rparr>,
               Inl e))"
proof -
  note h = handle_recording_ended[OF assms(1-4), of client_id w st]
  note d = on_recording_ended_dialogue[OF assms(5-9)]
  show ?thesis
  proof (cases "synthesis env reply")
    case (Inl e')
    then show ?thesis
      by (simp add: h d synthesize_speech_stream_def Let_def)
  next
    case (Inr res)
    show ?thesis
    proof (cases res)
      case (TtsAudio audio)
      then show ?thesis
        using Inr
        by (cases "audio = []")
           (simp_all add: h d synthesize_speech_stream_def Let_def case_prod_beta)
    next
      case TtsErrorDict
      then show ?thesis
        using Inr by (simp add: h d synthesize_speech_stream_def Let_def)
    qed
  qed
qed

theorem memory_append_precedes_synthesis_witness:
  "handle_message tts_down_env ''esp32'' sample_world \<lparr>is_recording = True, audio_buffer = [1, 2]\<rparr>
       (Text recording_ended_text) =
     ([Print LogRecordingEnded, Print (LogAudioSize 2), Print LogStartPipeline, CallAsr [1, 2],
       Print (LogUserSaid ''hello''), CallChain ''hello'' ''esp32'', Print (LogAiReply ''hi''),
       CallTts ''hi'', Print LogTtsError, Print LogTtsFailed],
      sample_world\<lparr>redis := (redis sample_world)(''esp32'' := [HumanMessage ''hello'', AIMessage ''hi''])\<rparr>,
      Inr \<lparr>is_recording = False, audio_buffer = [1, 2]\<rparr>)
   \<and> websocket_loop tts_raises_env ''esp32'' sample_world \<lparr>is_recording = True, audio_buffer = [1, 2]\<rparr>
       [Text recording_ended_text, Text recording_cancelled_text] =
     ([Print LogRecordingEnded, Print (LogAudioSize 2), Print LogStartPipeline, CallAsr [1, 2],
       Print (LogUserSaid ''hello''), CallChain ''hello'' ''esp32'', Print (LogAiReply ''hi''),
       CallTts ''hi'', Print (LogUnknownError ConnectionError), WsClose, Print LogForcedClose],
      sample_world\<lparr>redis := (redis sample_world)(''esp32'' := [HumanMessage ''hello'', AIMessage ''hi''])\<rparr>,
      Inl ConnectionError)"
proof -
  let ?st = "\<lparr>is_recording = True, audio_buffer = [1, 2::byte]\<rparr>"
  have e: "dict_get (JObj [(''event'', JStr ''recording_ended'')]) ''event''
             = Inr (JStr ''recording_ended'')"
    by simp
  have b: "audio_buffer ?st \<noteq> []" by simp
  have f: "stt_first_result (SttDict (Some 0) (Some [''hello''])) = Some ''hello''" by simp
  have n: "''hello'' \<noteq> []" by simp
  have h: "redis sample_world ''esp32'' = []" by (simp add: sample_world_def)
  have l1: "json_loads tts_down_env recording_ended_text
             = Some (JObj [(''event'', JStr ''recording_ended'')])"
    using sample_json_loads_values(3) by (simp add: tts_down_env_def)
  have a1: "asr tts_down_env (audio_buffer ?st) = Inr (SttDict (Some 0) (Some [''hello'']))"
    by (simp add: tts_down_env_def sample_env_def)
  have q1: "llm tts_down_env (redis sample_world ''esp32'') ''hello'' = Inr ''hi''"
    by (simp add: tts_down_env_def sample_env_def)
  have s1: "synthesis tts_down_env ''hi'' = Inr TtsErrorDict" by (simp add: tts_down_env_def)
  have l2: "json_loads tts_raises_env recording_ended_text
             = Some (JObj [(''event'', JStr ''recording_ended'')])"
    using sample_json_loads_values(3) by (simp add: tts_raises_env_def)
  have a2: "asr tts_raises_env (audio_buffer ?st) = Inr (SttDict (Some 0) (Some [''hello'']))"
    by (simp add: tts_raises_env_def sample_env_def)
  have q2: "llm tts_raises_env (redis sample_world ''esp32'') ''hello'' = Inr ''hi''"
    by (simp add: tts_raises_env_def sample_env_def)
  have s2: "synthesis tts_raises_env ''hi'' = Inl ConnectionError" by (simp add: tts_raises_env_def)
  note t1 = memory_append_precedes_synthesis[OF sample_text_not_literal(5,6) l1 e b a1 f n q1]
  note t2 = memory_append_precedes_synthesis[OF sample_text_not_literal(5,6) l2 e b a2 f n q2,
      where e = ConnectionError and ms = "[Text recording_cancelled_text]"]
  have 1: "handle_message tts_down_env ''esp32'' sample_world ?st (Text recording_ended_text) =
     ([Print LogRecordingEnded, Print (LogAudioSize 2), Print LogStartPipeline, CallAsr [1, 2],
       Print (LogUserSaid ''hello''), CallChain ''hello'' ''esp32'', Print (LogAiReply ''hi''),
       CallTts ''hi'', Print LogTtsError, Print LogTtsFailed],
      sample_world\<lparr>redis := (redis sample_world)(''esp32'' := [HumanMessage ''hello'', AIMessage ''hi''])\<rparr>,
      Inr \<lparr>is_recording = False, audio_buffer = [1, 2]\<rparr>)"
    using t1 s1 h by simp
  have 2: "websocket_loop tts_raises_env ''esp32'' sample_world ?st
       [Text recording_ended_text, Text recording_cancelled_text] =
     ([Print LogRecordingEnded, Print (LogAudioSize 2), Print LogStartPipeline, CallAsr [1, 2],
       Print (LogUserSaid ''hello''), CallChain ''hello'' ''esp32'', Print (LogAiReply ''hi''),
       CallTts ''hi'', Print (LogUnknownError ConnectionError), WsClose, Print LogForcedClose],
      sample_world\<lparr>redis := (redis sample_world)(''esp32'' := [HumanMessage ''hello'', AIMessage ''hi''])\<rparr>,
      Inl ConnectionError)"
    using t2 s2 h by simp
  from 1 2 show ?thesis by (rule conjI)
qed

text \<open>
  A transcription failure can end the session. With a recogniser that raises, no dialogue
  call and no memory write happen, but the exception leaves the loop: the error is printed,
  the connection is closed, and the frame after it is never handled.
\<close>

theorem asr_exception_closes_counterexample:
  "websocket_loop asr_raises_env ''esp32'' sample_world \<lparr>is_recording = True, audio_buffer = [1, 2]\<rparr>
       [Text recording_ended_text, Text recording_started_text] =
     ([Print LogRecordingEnded, Print (LogAudioSize 2), Print LogStartPipeline, CallAsr [1, 2],
       Print (LogUnknownError ConnectionError), WsClose, Print LogForcedClose],
      sample_world, Inl ConnectionError)"
proof -
  have l: "json_loads asr_raises_env recording_ended_text
             = Some (JObj [(''event'', JStr ''recording_ended'')])"
    using sample_json_loads_values(3) by (simp add: asr_raises_env_def)
  have e: "dict_get (JObj [(''event'', JStr ''recording_ended'')]) ''event''
             = Inr (JStr ''recording_ended'')"
    by simp
  have b: "audio_buffer \<lparr>is_recording = True, audio_buffer = [1, 2::byte]\<rparr> \<noteq> []" by simp
  have a: "asr asr_raises_env (audio_buffer \<lparr>is_recording = True, audio_buffer = [1, 2]\<rparr>)
             = Inl ConnectionError"
    by (simp add: asr_raises_env_def)
  show ?thesis
    by (simp add: handle_recording_ended[OF sample_text_not_literal(5,6) l e]
        on_recording_ended_asr_raised[OF b a])
qed

text \<open>
  C5, as the code has it, for a buffer that is not empty. When the recogniser's response is
  an error (falsy, \<^verbatim>\<open>err_no\<close> not 0, no result) or carries an empty text, the handler
  prints the ASR failure and goes on to the next frame: the dialogue chain is not called,
  the world (conversation memory included) is unchanged, nothing is sent, and the
  connection stays open with the session idle. When the recogniser raises, the chain is not
  called, the world is unchanged and nothing is sent either, but the exception leaves the
  loop: the error is printed and the connection closed, whatever frames follow.
\<close>

theorem asr_failure_aborts_turn:
  assumes "text \<noteq> ''1''" and "text \<noteq> ''0''"
    and "json_loads env text = Some data"
    and "dict_get data ''event'' = Inr (JStr ''recording_ended'')"
    and "audio_buffer st \<noteq> []"
  shows "(asr env (audio_buffer st) = Inr r
            \<and> (stt_first_result r = None \<or> stt_first_result r = Some []) \<longrightarrow>
            handle_message env client_id w st (Text text) =
              ([Print LogRecordingEnded, Print (LogAudioSize (length (audio_buffer st))),
                Print LogStartPipeline, CallAsr (audio_buffer st)]
               @ (if stt_first_result r = None then [Print (LogSttError r)] else [])
               @ [Print LogAsrFailed],
               w, Inr (st\<lparr>is_recording := False\<rparr>)))
       \<and> (asr env (audio_buffer st) = Inl e \<longrightarrow>
            websocket_loop env client_id w st (Text text # ms) =
              ([Print LogRecordingEnded, Print (LogAudioSize (length (audio_buffer st))),
                Print LogStartPipeline, CallAsr (audio_buffer st),
                Print (LogUnknownError e), WsClose, Print LogForcedClose],
               w, Inl e))
       \<and> ((asr env (audio_buffer st) = Inr r
              \<and> (stt_first_result r = None \<or> stt_first_result r = Some []))
            \<or> asr env (audio_buffer st) = Inl e \<longrightarrow>
            filter is_chain_call (fst (handle_message env client_id w st (Text text))) = []
            \<and> filter is_send (fst (handle_message env client_id w st (Text text))) = []
            \<and> fst (snd (handle_message env client_id w st (Text text))) = w)"
proof -
  note h = handle_recording_ended[OF assms(1-4), of client_id w st]
  have 1: "asr env (audio_buffer st) = Inr r
            \<and> (stt_first_result r = None \<or> stt_first_result r = Some []) \<Longrightarrow>
           on_recording_ended env client_id w st =
              ([Print LogRecordingEnded, Print (LogAudioSize (length (audio_buffer st))),
                Print LogStartPipeline, CallAsr (audio_buffer st)]
               @ (if stt_first_result r = None then [Print (LogSttError r)] else [])
               @ [Print LogAsrFailed],
               w, Inr (st\<lparr>is_recording := False\<rparr>))"
    using on_recording_ended_asr_failed[OF assms(5), of env r client_id w] by blast
  have 2: "asr env (audio_buffer st) = Inl e \<Longrightarrow>
           on_recording_ended env client_id w st =
              ([Print LogRecordingEnded, Print (LogAudioSize (length (audio_buffer st))),
                Print LogStartPipeline, CallAsr (audio_buffer st)], w, Inl e)"
    by (rule on_recording_ended_asr_raised[OF assms(5)])
  show ?thesis
  proof (intro conjI impI)
    assume a: "asr env (audio_buffer st) = Inr r
            \<and> (stt_first_result r = None \<or> stt_first_result r = Some [])"
    show "handle_message env client_id w st (Text text) =
              ([Print LogRecordingEnded, Print (LogAudioSize (length (audio_buffer st))),
                Print LogStartPipeline, CallAsr (audio_buffer st)]
               @ (if stt_first_result r = None then [Print (LogSttError r)] else [])
               @ [Print LogAsrFailed],
               w, Inr (st\<lparr>is_recording := False\<rparr>))"
      unfolding h by (rule 1[OF a])
  next
    assume a: "asr env (audio_buffer st) = Inl e"
    show "websocket_loop env client_id w st (Text text # ms) =
              ([Print LogRecordingEnded, Print (LogAudioSize (length (audio_buffer st))),
                Print LogStartPipeline, CallAsr (audio_buffer st),
                Print (LogUnknownError e), WsClose, Print LogForcedClose],
               w, Inl e)"
      by (simp add: h 2[OF a])
  next
    assume a: "(asr env (audio_buffer st) = Inr r
              \<and> (stt_first_result r = None \<or> stt_first_result r = Some []))
            \<or> asr env (audio_buffer st) = Inl e"
    then show "filter is_chain_call (fst (handle_message env client_id w st (Text text))) = []"
      using 1 2 by (auto simp: h)
  next
    assume a: "(asr env (audio_buffer st) = Inr r
              \<and> (stt_first_result r = None \<or> stt_first_result r = Some []))
            \<or> asr env (audio_buffer st) = Inl e"
    then show "filter is_send (fst (handle_message env client_id w st (Text text))) = []"
      using 1 2 by (auto simp: h)
  next
    assume a: "(asr env (audio_buffer st) = Inr r
              \<and> (stt_first_result r = None \<or> stt_first_result r = Some []))
            \<or> asr env (audio_buffer st) = Inl e"
    then show "fst (snd (handle_message env client_id w st (Text text))) = w"
      using 1 2 by (auto simp: h)
  qed
qed

theorem asr_failure_aborts_turn_witness:
  "handle_message asr_down_env ''esp32'' sample_world \<lparr>is_recording = True, audio_buffer = [1, 2]\<rparr>
       (Text recording_ended_text) =
     ([Print LogRecordingEnded, Print (LogAudioSize 2), Print LogStartPipeline, CallAsr [1, 2],
       Print (LogSttError (SttDict (Some 3301) None)), Print LogAsrFailed],
      sample_world, Inr \<lparr>is_recording = False, audio_buffer = [1, 2]\<rparr>)
   \<and> websocket_loop asr_raises_env ''esp32'' sample_world \<lparr>is_recording = True, audio_buffer = [1, 2]\<rparr>
       [Text recording_ended_text, Text recording_cancelled_text] =
     ([Print LogRecordingEnded, Print (LogAudioSize 2), Print LogStartPipeline, CallAsr [1, 2],
       Print (LogUnknownError ConnectionError), WsClose, Print LogForcedClose],
      sample_world, Inl ConnectionError)
   \<and> filter is_chain_call (fst (handle_message asr_raises_env ''esp32'' sample_world
        \<lparr>is_recording = True, audio_buffer = [1, 2]\<rparr> (Text recording_ended_text))) = []"
proof -
  let ?st = "\<lparr>is_recording = True, audio_buffer = [1, 2::byte]\<rparr>"
  have e: "dict_get (JObj [(''event'', JStr ''recording_ended'')]) ''event''
             = Inr (JStr ''recording_ended'')"
    by simp
  have b: "audio_buffer ?st \<noteq> []" by simp
  have l1: "json_loads asr_down_env recording_ended_text
             = Some (JObj [(''event'', JStr ''recording_ended'')])"
    using sample_json_loads_values(3) by (simp add: asr_down_env_def)
  have l2: "json_loads asr_raises_env recording_ended_text
             = Some (JObj [(''event'', JStr ''recording_ended'')])"
    using sample_json_loads_values(3) by (simp add: asr_raises_env_def)
  have f: "asr asr_down_env (audio_buffer ?st) = Inr (SttDict (Some 3301) None)
           \<and> (stt_first_result (SttDict (Some 3301) None) = None
                \<or> stt_first_result (SttDict (Some 3301) None) = Some [])"
    by (simp add: asr_down_env_def)
  have g: "asr asr_raises_env (audio_buffer ?st) = Inl ConnectionError"
    by (simp add: asr_raises_env_def)
  note t1 = asr_failure_aborts_turn[OF sample_text_not_literal(5,6) l1 e b,
      where r = "SttDict (Some 3301) None" and client_id = "''esp32''" and w = sample_world]
  note t2 = asr_failure_aborts_turn[OF sample_text_not_literal(5,6) l2 e b,
      where e = ConnectionError and client_id = "''esp32''" and w = sample_world
        and ms = "[Text recording_cancelled_text]"]
  have 1: "handle_message asr_down_env ''esp32'' sample_world ?st (Text recording_ended_text) =
     ([Print LogRecordingEnded, Print (LogAudioSize 2), Print LogStartPipeline, CallAsr [1, 2],
       Print (LogSttError (SttDict (Some 3301) None)), Print LogAsrFailed],
      sample_world, Inr \<lparr>is_recording = False, audio_buffer = [1, 2]\<rparr>)"
    using t1 f by simp
  have 2: "websocket_loop asr_raises_env ''esp32'' sample_world ?st
       [Text recording_ended_text, Text recording_cancelled_text] =
     ([Print LogRecordingEnded, Print (LogAudioSize 2), Print LogStartPipeline, CallAsr [1, 2],
       Print (LogUnknownError ConnectionError), WsClose, Print LogForcedClose],
      sample_world, Inl ConnectionError)"
    using t2 g by simp
  have 3: "filter is_chain_call (fst (handle_message asr_raises_env ''esp32'' sample_world ?st
             (Text recording_ended_text))) = []"
    using t2 g by blast
  from 1 2 3 show ?thesis by blast
qed

section \<open>Streaming the reply\<close>

text \<open>
  C6: with a positive chunk size \<open>csize\<close> and burst size \<open>bsize\<close>, when every send
  returns, the reply is sent as the chunks \<open>audio[k*csize : (k+1)*csize]\<close> in order, a
  1 ms sleep following every \<open>bsize\<close>-th chunk, and the \<^verbatim>\<open>response_finished\<close> text is
  sent after the last chunk. The chunks number the ceiling of \<open>length audio / csize\<close> and
  their concatenation is the audio; 10000 bytes in chunks of 1024 make 10 chunks, the last
  of 784 bytes.
\<close>

theorem stream_reply_chunks:
  assumes "0 < csize" and "0 < bsize"
    and "\<forall>k \<le> (length audio + csize - 1) div csize. send_ok env (n + k)"
  shows "stream_reply env csize bsize audio n =
           (Print (LogStartStreaming (length audio))
              # concat (map (\<lambda>k. SendBytes (take csize (drop (k * csize) audio)) True
                                  # (if Suc k mod bsize = 0 then [Sleep 1] else []))
                            [0..<(length audio + csize - 1) div csize])
              @ [SendText response_finished True, Print LogTurnDone],
            n + (length audio + csize - 1) div csize + 1)
       \<and> length (sent_chunks (fst (stream_reply env csize bsize audio n))) =
            nat \<lceil>real (length audio) / real csize\<rceil>
       \<and> concat (sent_chunks (fst (stream_reply env csize bsize audio n))) = audio
       \<and> (length audio = 10000 \<and> csize = 1024 \<longrightarrow>
            length (sent_chunks (fst (stream_reply env csize bsize audio n))) = 10
            \<and> length (last (sent_chunks (fst (stream_reply env csize bsize audio n)))) = 784)"
proof -
  let ?m = "(length audio + csize - 1) div csize"
  let ?chunk = "\<lambda>k. take csize (drop (k * csize) audio)"
  note eq = stream_reply_all_ok[OF assms]
  have sc: "sent_chunks (fst (stream_reply env csize bsize audio n)) = map ?chunk [0..<?m]"
    using sent_chunks_bursts[of ?chunk "\<lambda>k. Suc k mod bsize = 0" "[0..<?m]"]
    by (simp add: eq sent_chunks_append)
  have n: "length (map ?chunk [0..<?m]) = nat \<lceil>real (length audio) / real csize\<rceil>"
    using ceil_div[OF assms(1), of "length audio"] by simp
  have c: "concat (map ?chunk [0..<?m]) = audio"
    by (rule concat_chunks_upt[OF assms(1)])
  have ex: "length audio = 10000 \<and> csize = 1024 \<longrightarrow>
            length (map ?chunk [0..<?m]) = 10 \<and> length (last (map ?chunk [0..<?m])) = 784"
  proof
    assume a: "length audio = 10000 \<and> csize = 1024"
    then have m: "?m = 10" by simp
    have "[0..<10] \<noteq> []" by simp
    then have "last (map ?chunk [0..<10]) = ?chunk (last [0..<10])" by (rule last_map)
    also have "last [0..<10] = (9::nat)" by (simp add: upt_rec)
    finally show "length (map ?chunk [0..<?m]) = 10 \<and> length (last (map ?chunk [0..<?m])) = 784"
      using a by (simp add: m)
  qed
  show ?thesis using eq n c ex unfolding sc by blast
qed

theorem stream_reply_chunks_witness:
  "length (sent_chunks (fst (stream_reply sample_env CHUNK_SIZE BURST_SIZE (replicate 10000 0) 0))) = 10
   \<and> length (last (sent_chunks
        (fst (stream_reply sample_env CHUNK_SIZE BURST_SIZE (replicate 10000 0) 0)))) = 784
   \<and> concat (sent_chunks (fst (stream_reply sample_env CHUNK_SIZE BURST_SIZE (replicate 10000 0) 0)))
        = replicate 10000 0
   \<and> snd (stream_reply sample_env CHUNK_SIZE BURST_SIZE (replicate 10000 0) 0) = 11"
proof -
  have c: "0 < CHUNK_SIZE" and b: "0 < BURST_SIZE" by (simp_all add: CHUNK_SIZE_def BURST_SIZE_def)
  have s: "\<forall>k \<le> (length (replicate 10000 (0::byte)) + CHUNK_SIZE - 1) div CHUNK_SIZE.
             send_ok sample_env (0 + k)"
    by (simp add: sample_env_def)
  have l: "length (replicate 10000 (0::byte)) = 10000 \<and> CHUNK_SIZE = 1024"
    by (simp add: CHUNK_SIZE_def)
  have m: "(length (replicate 10000 (0::byte)) + CHUNK_SIZE - 1) div CHUNK_SIZE = 10"
    by (simp add: CHUNK_SIZE_def)
  note t = stream_reply_chunks[OF c b s]
  have 1: "concat (sent_chunks (fst (stream_reply sample_env CHUNK_SIZE BURST_SIZE (replicate 10000 0) 0)))
        = replicate 10000 0"
    using t by blast
  have 2: "length (sent_chunks (fst (stream_reply sample_env CHUNK_SIZE BURST_SIZE (replicate 10000 0) 0))) = 10
   \<and> length (last (sent_chunks
        (fst (stream_reply sample_env CHUNK_SIZE BURST_SIZE (replicate 10000 0) 0)))) = 784"
    using t l by blast
  have "snd (stream_reply sample_env CHUNK_SIZE BURST_SIZE (replicate 10000 0) 0) =
          0 + (length (replicate 10000 (0::byte)) + CHUNK_SIZE - 1) div CHUNK_SIZE + 1"
    using conjunct1[OF t] by (simp only: snd_conv)
  then have 3: "snd (stream_reply sample_env CHUNK_SIZE BURST_SIZE (replicate 10000 0) 0) = 11"
    by (simp only: m)
  from 1 2 3 show ?thesis by blast
qed

text \<open>
  A send failure is not handled as a disconnect. With a socket whose second send raises,
  the handler stops after the second chunk, still sends \<^verbatim>\<open>response_finished\<close>, closes
  nothing, and serves the next frame of the same session: the following
  \<^verbatim>\<open>recording_started\<close> starts a new recording.
\<close>

theorem session_survives_send_failure_counterexample:
  "websocket_loop flaky_env ''esp32'' sample_world \<lparr>is_recording = True, audio_buffer = [1, 2]\<rparr>
       [Text recording_ended_text, Text recording_started_text] =
     ([Print LogRecordingEnded, Print (LogAudioSize 2), Print LogStartPipeline, CallAsr [1, 2],
       Print (LogUserSaid ''hello''), CallChain ''hello'' ''esp32'', Print (LogAiReply ''hi''),
       CallTts ''hi'', Sleep 100, Print (LogStartStreaming 2500),
       SendBytes (replicate 1024 0) True, SendBytes (replicate 1024 0) False, Print LogSendFailed,
       SendText response_finished True, Print LogTurnDone, Print LogRecordingStarted],
      sample_world\<lparr>redis := (redis sample_world)(''esp32'' := [HumanMessage ''hello'', AIMessage ''hi'']),
                     sends := 3\<rparr>,
      Inr \<lparr>is_recording = True, audio_buffer = []\<rparr>)"
proof -
  have l: "json_loads flaky_env recording_started_text
             = Some (JObj [(''event'', JStr ''recording_started'')])"
    using sample_json_loads_values(2) by (simp add: flaky_env_def)
  have st: "handle_message flaky_env ''esp32'' w st (Text recording_started_text) =
     ([Print LogRecordingStarted], w, Inr (st\<lparr>is_recording := True, audio_buffer := []\<rparr>))" for w st
    by (simp add: handle_message_def l sample_text_not_literal)
  show ?thesis by (simp add: flaky_turn st)
qed

text \<open>
  C7, as the code has it: when the send of chunk \<open>j\<close> raises, the loop ends at once: the
  chunks before \<open>j\<close> were sent, chunk \<open>j\<close> is tried once, no later chunk and no part of
  a chunk is sent. The handler then still sends \<^verbatim>\<open>response_finished\<close> on the same socket
  (ignoring whether that send returns) and goes back to receiving: the session is idle,
  keeps its buffer, and the connection is not closed.
\<close>

theorem chunk_send_failure_stops_stream:
  assumes "text \<noteq> ''1''" and "text \<noteq> ''0''"
    and "json_loads env text = Some data"
    and "dict_get data ''event'' = Inr (JStr ''recording_ended'')"
    and "audio_buffer st \<noteq> []"
    and "asr env (audio_buffer st) = Inr r"
    and "stt_first_result r = Some user_text"
    and "user_text \<noteq> []"
    and "llm env (redis w client_id) user_text = Inr reply"
    and "synthesis env reply = Inr (TtsAudio audio)"
    and "audio \<noteq> []"
    and "j < (length audio + CHUNK_SIZE - 1) div CHUNK_SIZE"
    and "\<forall>k < j. send_ok env (sends w + k)"
    and "\<not> send_ok env (sends w + j)"
  shows "handle_message env client_id w st (Text text) =
           ([Print LogRecordingEnded, Print (LogAudioSize (length (audio_buffer st))),
             Print LogStartPipeline, CallAsr (audio_buffer st), Print (LogUserSaid user_text),
             CallChain user_text client_id, Print (LogAiReply reply), CallTts reply,
             Sleep 100, Print (LogStartStreaming (length audio))]
            @ concat (map (\<lambda>k. SendBytes (take CHUNK_SIZE (drop (k * CHUNK_SIZE) audio)) True
                                # (if Suc k mod BURST_SIZE = 0 then [Sleep 1] else []))
                          [0..<j])
            @ [SendBytes (take CHUNK_SIZE (drop (j * CHUNK_SIZE) audio)) False, Print LogSendFailed,
               SendText response_finished (send_ok env (sends w + j + 1)), Print LogTurnDone],
            w\<lparr>redis := (redis w)(client_id :=
                  redis w client_id @ [HumanMessage user_text, AIMessage reply]),
              sends := sends w + j + 2\<rparr>,
            Inr (st\<lparr>is_recording := False\<rparr>))"
proof -
  have c: "0 < CHUNK_SIZE" and b: "0 < BURST_SIZE" by (simp_all add: CHUNK_SIZE_def BURST_SIZE_def)
  have t: "synthesize_speech_stream env reply = ([CallTts reply], Inr audio)"
    using assms(10) by (simp add: synthesize_speech_stream_def)
  show ?thesis
    using assms(11)
    by (simp add: handle_recording_ended[OF assms(1-4)] on_recording_ended_dialogue[OF assms(5-9)]
        Let_def t stream_reply_fails_at[OF c b assms(12-14)])
qed

theorem chunk_send_failure_stops_stream_witness:
  "handle_message flaky_env ''esp32'' sample_world \<lparr>is_recording = True, audio_buffer = [1, 2]\<rparr>
       (Text recording_ended_text) =
     ([Print LogRecordingEnded, Print (LogAudioSize 2), Print LogStartPipeline, CallAsr [1, 2],
       Print (LogUserSaid ''hello''), CallChain ''hello'' ''esp32'', Print (LogAiReply ''hi''),
       CallTts ''hi'', Sleep 100, Print (LogStartStreaming 2500),
       SendBytes (replicate 1024 0) True, SendBytes (replicate 1024 0) False, Print LogSendFailed,
       SendText response_finished True, Print LogTurnDone],
      sample_world\<lparr>redis := (redis sample_world)(''esp32'' := [HumanMessage ''hello'', AIMessage ''hi'']),
                     sends := 3\<rparr>,
      Inr \<lparr>is_recording = False, audio_buffer = [1, 2]\<rparr>)"
proof -
  have l: "json_loads flaky_env recording_ended_text
             = Some (JObj [(''event'', JStr ''recording_ended'')])"
    using sample_json_loads_values(3) by (simp add: flaky_env_def)
  have e: "dict_get (JObj [(''event'', JStr ''recording_ended'')]) ''event''
             = Inr (JStr ''recording_ended'')"
    by simp
  have b: "audio_buffer \<lparr>is_recording = True, audio_buffer = [1, 2::byte]\<rparr> \<noteq> []" by simp
  have a: "asr flaky_env (audio_buffer \<lparr>is_recording = True, audio_buffer = [1, 2]\<rparr>)
             = Inr (SttDict (Some 0) (Some [''hello'']))"
    by (simp add: flaky_env_def sample_env_def)
  have f: "stt_first_result (SttDict (Some 0) (Some [''hello''])) = Some ''hello''" by simp
  have n: "''hello'' \<noteq> []" by simp
  have r: "llm flaky_env (redis sample_world ''esp32'') ''hello'' = Inr ''hi''"
    by (simp add: flaky_env_def sample_env_def)
  have s: "synthesis flaky_env ''hi'' = Inr (TtsAudio (replicate 2500 0))"
    by (simp add: flaky_env_def sample_env_def)
  have ne: "replicate 2500 (0::byte) \<noteq> []" by simp
  have j: "1 < (length (replicate 2500 (0::byte)) + CHUNK_SIZE - 1) div CHUNK_SIZE"
    by (simp add: CHUNK_SIZE_def)
  have ok: "\<forall>k < 1. send_ok flaky_env (sends sample_world + k)"
    by (simp add: flaky_env_def sample_world_def)
  have bad: "\<not> send_ok flaky_env (sends sample_world + 1)"
    by (simp add: flaky_env_def sample_world_def)
  have after: "send_ok flaky_env (sends sample_world + 1 + 1)" "sends sample_world + 1 + 2 = 3"
    "redis sample_world ''esp32'' = []"
    by (simp_all add: flaky_env_def sample_world_def)
  have ch: "take CHUNK_SIZE (drop (0 * CHUNK_SIZE) (replicate 2500 (0::byte))) = replicate 1024 0"
    "take CHUNK_SIZE (drop (1 * CHUNK_SIZE) (replicate 2500 (0::byte))) = replicate 1024 0"
    "Suc 0 mod BURST_SIZE \<noteq> 0"
    by (simp_all add: CHUNK_SIZE_def BURST_SIZE_def)
  from chunk_send_failure_stops_stream[OF sample_text_not_literal(5,6) l e b a f n r s ne j ok bad]
  show ?thesis using after ch by simp
qed

section \<open>Protocol errors\<close>




section \<open>The status relay\<close>

text \<open>
  C9: a text frame that is the literal \<^verbatim>\<open>"1"\<close> or \<^verbatim>\<open>"0"\<close> never touches
  \<^verbatim>\<open>client_state\<close>. With no LED controller registered it does nothing; with one
  registered the literal is sent to it unchanged; when that send raises, the slot is set
  to \<^verbatim>\<open>None\<close>, after which any run of such literals produces no effect at all.
\<close>

theorem led_literal_forwarded:
  assumes "text = ''1'' \<or> text = ''0''"
  shows "(led_controller_connection w = None \<longrightarrow>
            handle_message env client_id w st (Text text) = ([], w, Inr st))
       \<and> (led_controller_connection w = Some led \<and> led_send_ok env (led_sends w) \<longrightarrow>
            handle_message env client_id w st (Text text) =
              ([LedSendText led text True, Print (LogLedForwarded text)],
               w\<lparr>led_sends := led_sends w + 1\<rparr>, Inr st))
       \<and> (led_controller_connection w = Some led \<and> \<not> led_send_ok env (led_sends w) \<longrightarrow>
            handle_message env client_id w st (Text text) =
              ([LedSendText led text False, Print LogLedForwardFailed],
               w\<lparr>led_controller_connection := None, led_sends := led_sends w + 1\<rparr>, Inr st)
            \<and> (\<forall>ms. (\<forall>m \<in> set ms. m = Text ''1'' \<or> m = Text ''0'') \<longrightarrow>
                   websocket_loop env client_id
                       (w\<lparr>led_controller_connection := None, led_sends := led_sends w + 1\<rparr>) st ms =
                     ([], w\<lparr>led_controller_connection := None, led_sends := led_sends w + 1\<rparr>,
                      Inr st)))"
proof (intro conjI impI allI)
  assume "led_controller_connection w = None"
  then show "handle_message env client_id w st (Text text) = ([], w, Inr st)"
    using assms by (auto simp: handle_message_def forward_led_def)
next
  assume "led_controller_connection w = Some led \<and> led_send_ok env (led_sends w)"
  then show "handle_message env client_id w st (Text text) =
              ([LedSendText led text True, Print (LogLedForwarded text)],
               w\<lparr>led_sends := led_sends w + 1\<rparr>, Inr st)"
    using assms by (auto simp: handle_message_def forward_led_def)
next
  assume "led_controller_connection w = Some led \<and> \<not> led_send_ok env (led_sends w)"
  then show "handle_message env client_id w st (Text text) =
              ([LedSendText led text False, Print LogLedForwardFailed],
               w\<lparr>led_controller_connection := None, led_sends := led_sends w + 1\<rparr>, Inr st)"
    using assms by (auto simp: handle_message_def forward_led_def)
next
  fix ms
  assume "\<forall>m \<in> set ms. m = Text ''1'' \<or> m = Text ''0''"
  then show "websocket_loop env client_id
                       (w\<lparr>led_controller_connection := None, led_sends := led_sends w + 1\<rparr>) st ms =
                     ([], w\<lparr>led_controller_connection := None, led_sends := led_sends w + 1\<rparr>,
                      Inr st)"
    by (intro literal_frames_no_observer) simp_all
qed

theorem led_literal_forwarded_witness:
  "handle_message sample_env ''esp32'' observed_world \<lparr>is_recording = True, audio_buffer = [5]\<rparr>
       (Text ''1'') =
     ([LedSendText 7 ''1'' True, Print (LogLedForwarded ''1'')],
      observed_world\<lparr>led_sends := 1\<rparr>, Inr \<lparr>is_recording = True, audio_buffer = [5]\<rparr>)
   \<and> handle_message led_down_env ''esp32'' observed_world \<lparr>is_recording = True, audio_buffer = [5]\<rparr>
       (Text ''1'') =
     ([LedSendText 7 ''1'' False, Print LogLedForwardFailed],
      sample_world\<lparr>led_sends := 1\<rparr>, Inr \<lparr>is_recording = True, audio_buffer = [5]\<rparr>)
   \<and> websocket_loop led_down_env ''esp32'' (sample_world\<lparr>led_sends := 1\<rparr>)
       \<lparr>is_recording = True, audio_buffer = [5]\<rparr> [Text ''0'', Text ''1''] =
     ([], sample_world\<lparr>led_sends := 1\<rparr>, Inr \<lparr>is_recording = True, audio_buffer = [5]\<rparr>)"
proof -
  have lit: "''1'' = ''1'' \<or> ''1'' = ''0''" by simp
  have up: "led_controller_connection observed_world = Some 7 \<and> led_send_ok sample_env (led_sends observed_world)"
    by (simp add: observed_world_def sample_world_def sample_env_def)
  have down: "led_controller_connection observed_world = Some 7 \<and> \<not> led_send_ok led_down_env (led_sends observed_world)"
    by (simp add: observed_world_def sample_world_def led_down_env_def)
  have w1: "observed_world\<lparr>led_controller_connection := None, led_sends := led_sends observed_world + 1\<rparr>
              = sample_world\<lparr>led_sends := 1\<rparr>"
    by (simp add: observed_world_def sample_world_def)
  have w2: "observed_world\<lparr>led_sends := led_sends observed_world + 1\<rparr> = observed_world\<lparr>led_sends := 1\<rparr>"
    by (simp add: observed_world_def sample_world_def)
  have lits: "\<forall>m \<in> set [Text ''0'', Text ''1'']. m = Text ''1'' \<or> m = Text ''0''" by simp
  note a = led_literal_forwarded[OF lit, of observed_world sample_env "''esp32''"
      "\<lparr>is_recording = True, audio_buffer = [5]\<rparr>" 7]
  note b = led_literal_forwarded[OF lit, of observed_world led_down_env "''esp32''"
      "\<lparr>is_recording = True, audio_buffer = [5]\<rparr>" 7]
  from a up have 1: "handle_message sample_env ''esp32'' observed_world \<lparr>is_recording = True, audio_buffer = [5]\<rparr>
       (Text ''1'') =
     ([LedSendText 7 ''1'' True, Print (LogLedForwarded ''1'')],
      observed_world\<lparr>led_sends := 1\<rparr>, Inr \<lparr>is_recording = True, audio_buffer = [5]\<rparr>)"
    by (simp only: w2)
  from b down w1 lits show ?thesis using 1 by (simp only:) blast
qed

text \<open>
  C10: when the handler of any LED controller connection exits, by a disconnect or by
  another exception, the slot becomes \<^verbatim>\<open>None\<close> whatever it held: also right after a
  newer controller registered and replaced the one whose handler exits.
\<close>

theorem led_exit_empties_slot:
  assumes "e = LedDisconnect ws \<or> e = LedException ws"
  shows "led_controller_connection (snd (led_run w (es @ [e]))) = None
       \<and> led_controller_connection (snd (led_run w (es @ [LedAccept newer]))) = Some newer
       \<and> led_controller_connection (snd (led_run w (es @ [LedAccept newer, e]))) = None"
proof -
  have "es @ [LedAccept newer, e] = (es @ [LedAccept newer]) @ [e]" by simp
  then have "snd (led_run w (es @ [LedAccept newer, e])) =
    snd (led_websocket_endpoint (snd (led_run w (es @ [LedAccept newer]))) e)"
    by (simp only: led_run_snoc_world)
  then show ?thesis using assms by (auto simp: led_run_snoc_world)
qed

theorem led_exit_empties_slot_witness:
  "led_controller_connection (snd (led_run sample_world [LedAccept 1, LedAccept 2])) = Some 2
   \<and> led_controller_connection
        (snd (led_run sample_world [LedAccept 1, LedAccept 2, LedDisconnect 1])) = None"
proof -
  have "LedDisconnect 1 = LedDisconnect 1 \<or> LedDisconnect 1 = LedException 1" by simp
  from led_exit_empties_slot[OF this, of sample_world "[LedAccept 1]" 2]
  show ?thesis by simp
qed

end
